theory Spec2Isabelle
  imports Complex_Main "HOL-Library.Sublist" "HOL-Library.AList" "HOL-Library.Multiset" "HOL-Library.Word"
begin

section \<open>FoodLogger: the detection-to-nutrition estimation pipeline\<close>

text \<open>
  The development embeds \<^verbatim>\<open>backend/app/ml_model.py\<close> and
  \<^verbatim>\<open>backend/app/pipeline.py\<close>.

  Conventions of the embedding.
  \<^item> Python \<^verbatim>\<open>str\<close> values are \<open>string\<close>s. \<^verbatim>\<open>str.lower\<close> and
    \<^verbatim>\<open>str.title\<close> are modelled on the ASCII letters; every key of the tables and every
    keyword of the normalizer is ASCII.
  \<^item> Python \<^verbatim>\<open>float\<close> values are exact rationals, and \<^verbatim>\<open>round(x, n)\<close> rounds the exact
    value to \<open>n\<close> decimals, a tie going to the even neighbour. Binary floating-point
    error is outside the model: a product that is a decimal tie in exact arithmetic, as
    \<open>2.7 * 1.5 = 4.05\<close>, is in general no tie in binary floating point, where the code
    rounds it to \<open>4.1\<close> and the model to \<open>4\<close>. The properties relate the fields of a
    result through \<^verbatim>\<open>round\<close> and do not depend on such a value, and no number stated
    in an example below comes from such a tie.
  \<^item> An exception is a value \<open>Inl e\<close> of a sum type; \<^verbatim>\<open>try/except Exception\<close> is a case
    distinction on it.
  \<^item> The \<^verbatim>\<open>random\<close> module is an explicit record of draws handed to the functions
    that call it.
  \<^item> A \<^verbatim>\<open>dict\<close> is an association list in insertion order.
\<close>

subsection \<open>Strings\<close>

definition is_upper :: "char \<Rightarrow> bool" where
  "is_upper c = (let n = of_char c :: nat in 65 \<le> n \<and> n \<le> 90)"

definition is_lower :: "char \<Rightarrow> bool" where
  "is_lower c = (let n = of_char c :: nat in 97 \<le> n \<and> n \<le> 122)"

definition lower_char :: "char \<Rightarrow> char" where
  "lower_char c = (if is_upper c then char_of (of_char c + (32::nat)) else c)"

definition upper_char :: "char \<Rightarrow> char" where
  "upper_char c = (if is_lower c then char_of (of_char c - (32::nat)) else c)"

text \<open>\<^verbatim>\<open>s.lower()\<close>\<close>

definition lower :: "string \<Rightarrow> string" where
  "lower s = map lower_char s"

text \<open>\<^verbatim>\<open>s.replace(a, b)\<close> for one-character \<^verbatim>\<open>a\<close> and \<^verbatim>\<open>b\<close>.\<close>

definition replace :: "char \<Rightarrow> char \<Rightarrow> string \<Rightarrow> string" where
  "replace a b s = map (\<lambda>c. if c = a then b else c) s"

text \<open>
  \<^verbatim>\<open>s.title()\<close>: a letter that follows a letter is lower-cased, any other letter is
  upper-cased, and a character that is not a letter is kept. The flag says whether the
  previous character was a letter.
\<close>

fun title_from :: "bool \<Rightarrow> string \<Rightarrow> string" where
  "title_from previous_is_cased [] = []"
| "title_from previous_is_cased (c # cs) =
     (if is_lower c \<or> is_upper c
      then (if previous_is_cased then lower_char c else upper_char c) # title_from True cs
      else c # title_from False cs)"

definition title :: "string \<Rightarrow> string" where
  "title s = title_from False s"

text \<open>\<^verbatim>\<open>sub in s\<close> on strings is the test for a contiguous substring.\<close>

definition contains :: "string \<Rightarrow> string \<Rightarrow> bool" where
  "contains sub s = sublist sub s"

subsection \<open>Exceptions and dictionaries\<close>

datatype exn = KeyError | TypeError | AttributeError | Exception string

type_synonym 'v dict = "(string \<times> 'v) list"

text \<open>\<^verbatim>\<open>d[k]\<close> raises \<^verbatim>\<open>KeyError\<close> on a missing key; \<^verbatim>\<open>d.get(k, v)\<close> does not.\<close>

definition getitem :: "'v dict \<Rightarrow> string \<Rightarrow> exn + 'v" where
  "getitem d k = (case map_of d k of None \<Rightarrow> Inl KeyError | Some v \<Rightarrow> Inr v)"

definition dict_get :: "'v dict \<Rightarrow> string \<Rightarrow> 'v \<Rightarrow> 'v" where
  "dict_get d k v = (case map_of d k of None \<Rightarrow> v | Some w \<Rightarrow> w)"

definition dict_in :: "string \<Rightarrow> 'v dict \<Rightarrow> bool" where
  "dict_in k d = (map_of d k \<noteq> None)"

text \<open>\<^verbatim>\<open>d[k] = v\<close>: an existing key keeps its position, a new key goes last.\<close>

definition setitem :: "'v dict \<Rightarrow> string \<Rightarrow> 'v \<Rightarrow> 'v dict" where
  "setitem d k v = AList.update k v d"

subsection \<open>The nutrition reference table\<close>

record food_reference =
  calories_per_100g :: rat
  protein_per_100g :: rat
  carbs_per_100g :: rat
  fat_per_100g :: rat
  density_g_per_ml :: rat
  typical_serving_g :: rat

definition food :: "rat \<Rightarrow> rat \<Rightarrow> rat \<Rightarrow> rat \<Rightarrow> rat \<Rightarrow> rat \<Rightarrow> food_reference" where
  "food kcal p c f d s =
     \<lparr>calories_per_100g = kcal, protein_per_100g = p, carbs_per_100g = c,
      fat_per_100g = f, density_g_per_ml = d, typical_serving_g = s\<rparr>"

definition NUTRITION_DATABASE :: "food_reference dict" where
  "NUTRITION_DATABASE =
     [(''grilled_chicken'', food 165 31 0 (36/10) (105/100) 150),
      (''chicken_breast'', food 165 31 0 (36/10) (105/100) 150),
      (''salmon'', food 208 20 0 13 (105/100) 120),
      (''steak'', food 271 25 0 19 (105/100) 200),
      (''rice'', food 130 (27/10) 28 (3/10) (85/100) 150),
      (''pasta'', food 131 5 25 (11/10) (9/10) 180),
      (''bread'', food 265 9 49 (32/10) (4/10) 60),
      (''potato'', food 77 2 17 (1/10) (11/10) 150),
      (''broccoli'', food 55 (37/10) 7 (4/10) (6/10) 100),
      (''salad'', food 35 (15/10) 3 (2/10) (3/10) 100),
      (''carrots'', food 41 (9/10) 10 (2/10) (6/10) 80),
      (''default'', food 150 10 15 5 1 100)]"

subsection \<open>The label normalizer\<close>

definition normalize_food_label :: "string \<Rightarrow> string" where
  "normalize_food_label label =
     (let label_lower = replace (CHR ''_'') (CHR '' '') (lower label) in
      if dict_in label_lower NUTRITION_DATABASE then label_lower
      else if contains ''chicken'' label_lower then ''grilled_chicken''
      else if contains ''salmon'' label_lower \<or> contains ''fish'' label_lower then ''salmon''
      else if contains ''beef'' label_lower \<or> contains ''steak'' label_lower then ''steak''
      else if contains ''rice'' label_lower then ''rice''
      else if contains ''pasta'' label_lower \<or> contains ''spaghetti'' label_lower then ''pasta''
      else if contains ''bread'' label_lower \<or> contains ''toast'' label_lower then ''bread''
      else if contains ''potato'' label_lower \<or> contains ''fries'' label_lower then ''potato''
      else if contains ''broccoli'' label_lower then ''broccoli''
      else if contains ''salad'' label_lower \<or> contains ''lettuce'' label_lower then ''salad''
      else if contains ''carrot'' label_lower then ''carrots''
      else ''default'')"

subsection \<open>Numbers\<close>

text \<open>
  \<^verbatim>\<open>round(x, ndigits)\<close> on a number: the nearest multiple of \<open>10\<close> to the power
  \<open>-ndigits\<close>, a tie going to the neighbour whose last digit is even.
\<close>

definition round_half_even :: "rat \<Rightarrow> int" where
  "round_half_even y =
     (let f = \<lfloor>y\<rfloor>; d = y - of_int f in
      if d < 1 / 2 then f else if 1 / 2 < d then f + 1 else if even f then f else f + 1)"

definition py_round :: "rat \<Rightarrow> nat \<Rightarrow> rat" where
  "py_round x ndigits = of_int (round_half_even (x * 10 ^ ndigits)) / 10 ^ ndigits"

text \<open>
  A value that is not known to be a number: the \<^verbatim>\<open>score\<close> of a prediction comes from
  the classifier and is copied unchecked. \<^verbatim>\<open>round\<close> raises \<^verbatim>\<open>TypeError\<close> on anything
  that is not a number.
\<close>

datatype pyval = PyFloat rat | PyStr string | PyNone

definition round_val :: "pyval \<Rightarrow> nat \<Rightarrow> exn + rat" where
  "round_val v ndigits = (case v of PyFloat x \<Rightarrow> Inr (py_round x ndigits) | _ \<Rightarrow> Inl TypeError)"

subsection \<open>The random module\<close>

text \<open>
  \<^verbatim>\<open>random.shuffle(x)\<close> walks \<open>i\<close> from the last index down to \<open>1\<close> and swaps \<open>x[i]\<close>
  with \<open>x[j]\<close> for a drawn \<open>j \<le> i\<close>. The draw for index \<open>i\<close> is \<open>r i\<close>, reduced to
  the range.
\<close>

fun shuffle_from :: "nat \<Rightarrow> (nat \<Rightarrow> nat) \<Rightarrow> 'a list \<Rightarrow> 'a list" where
  "shuffle_from 0 r xs = xs"
| "shuffle_from (Suc i) r xs =
     (let j = r (Suc i) mod Suc (Suc i) in
      shuffle_from i r (xs[Suc i := xs ! j, j := xs ! Suc i]))"

definition shuffle :: "(nat \<Rightarrow> nat) \<Rightarrow> 'a list \<Rightarrow> 'a list" where
  "shuffle r xs = shuffle_from (length xs - 1) r xs"

text \<open>\<^verbatim>\<open>random.randint(a, b)\<close> with \<open>a \<le> b\<close>, from a drawn natural number.\<close>

definition randint :: "nat \<Rightarrow> nat \<Rightarrow> nat \<Rightarrow> nat" where
  "randint a b r = a + r mod (b - a + 1)"

text \<open>
  One field for each place that calls the \<^verbatim>\<open>random\<close> module. A jitter field gives the
  value of the \<open>k\<close>-th call of \<^verbatim>\<open>random.uniform\<close> at that place; the theorems that
  depend on the sampling range assume it.
\<close>

record random_source =
  detection_shuffle :: "nat \<Rightarrow> nat"
  detection_count :: nat
  serving_jitter :: "nat \<Rightarrow> rat"
  mock_shuffle :: "nat \<Rightarrow> nat"
  mock_count :: nat
  volume_jitter :: "nat \<Rightarrow> rat"

subsection \<open>Result records\<close>

text \<open>
  The dictionaries with fixed keys are records. The key \<^verbatim>\<open>confidence\<close> of an output
  item is the field \<open>item_confidence\<close>, apart from the \<open>confidence\<close> of a detection;
  the keys \<^verbatim>\<open>model\<close> and \<^verbatim>\<open>notes\<close> of the pipeline metadata are the fields
  \<open>model'\<close> and \<open>notes'\<close>.
\<close>

record item =
  name :: string
  code :: string
  estimated_volume_ml :: rat
  estimated_weight_g :: rat
  estimated_calories_kcal :: rat
  estimated_protein_g :: rat
  estimated_carbs_g :: rat
  estimated_fat_g :: rat
  item_confidence :: rat

record nutrition_result =
  items :: "item list"
  total_calories_kcal :: rat
  total_protein_g :: rat
  total_carbs_g :: rat
  total_fat_g :: rat

record pipeline_info =
  version :: string
  model' :: "string option"
  notes' :: string
  capabilities :: "string dict option"
  assumptions :: "string dict option"

record source_info =
  filename :: "string option"

record meal_result = nutrition_result +
  pipeline :: pipeline_info
  source :: source_info

text \<open>
  The two literals for the key \<^verbatim>\<open>pipeline\<close>: the one \<^verbatim>\<open>run_baseline_pipeline\<close>
  attaches to the result of its \<^verbatim>\<open>try\<close> block, and the one of
  \<^verbatim>\<open>run_fallback_pipeline\<close>, which has no other keys than the version and the notes.
\<close>

definition ml_pipeline_info :: pipeline_info where
  "ml_pipeline_info =
     \<lparr>version = ''ml-powered-1.0'',
      model' = Some ''nateraw/food (Food101)'',
      notes' = ''Real ML-based food recognition using Vision Transformer trained on Food101 dataset.'',
      capabilities = Some
        [(''food_detection'', ''Pre-trained on 101 food categories''),
         (''confidence_scoring'', ''Model provides confidence scores for predictions''),
         (''multi_item_detection'', ''Can detect multiple food items in a single image'')],
      assumptions = Some
        [(''serving_size'', ''Estimated based on typical portions for detected foods''),
         (''nutrition_database'', ''Uses USDA nutritional data for common foods''),
         (''visible_only'', ''Only visually detectable ingredients considered'')]\<rparr>"

definition fallback_pipeline_info :: pipeline_info where
  "fallback_pipeline_info =
     \<lparr>version = ''fallback-mock-0.1'', model' = None,
      notes' = ''Fallback mock pipeline - ML model not available.'',
      capabilities = None, assumptions = None\<rparr>"

subsection \<open>Nutrition estimation for detected items\<close>

record detected_item =
  label :: string
  display_name :: string
  confidence :: pyval

text \<open>The body of the loop of \<^verbatim>\<open>estimate_nutrition\<close>, for one detection and its draw.\<close>

definition estimate_item :: "rat \<Rightarrow> detected_item \<Rightarrow> exn + item" where
  "estimate_item jitter detection =
     (let normalized_label = normalize_food_label (label detection) in
      case getitem NUTRITION_DATABASE ''default'' of
        Inl e \<Rightarrow> Inl e
      | Inr dflt \<Rightarrow>
         (let nutrition = dict_get NUTRITION_DATABASE normalized_label dflt;
              base_serving = typical_serving_g nutrition;
              serving_g = py_round (base_serving * jitter) 1;
              factor = serving_g / 100;
              calories = py_round (calories_per_100g nutrition * factor) 1;
              protein = py_round (protein_per_100g nutrition * factor) 1;
              carbs = py_round (carbs_per_100g nutrition * factor) 1;
              fat = py_round (fat_per_100g nutrition * factor) 1;
              volume_ml = py_round (serving_g / density_g_per_ml nutrition) 1
          in case round_val (confidence detection) 2 of
               Inl e \<Rightarrow> Inl e
             | Inr conf \<Rightarrow>
                 Inr \<lparr>name = display_name detection, code = normalized_label,
                      estimated_volume_ml = volume_ml, estimated_weight_g = serving_g,
                      estimated_calories_kcal = calories, estimated_protein_g = protein,
                      estimated_carbs_g = carbs, estimated_fat_g = fat,
                      item_confidence = conf\<rparr>))"

text \<open>
  The loop: the items so far and the four running totals are the accumulator, \<open>k\<close>
  counts the calls of \<^verbatim>\<open>random.uniform(0.8, 1.2)\<close>.
\<close>

type_synonym totals = "item list \<times> rat \<times> rat \<times> rat \<times> rat"

fun estimate_loop :: "(nat \<Rightarrow> rat) \<Rightarrow> nat \<Rightarrow> detected_item list \<Rightarrow> totals \<Rightarrow> exn + totals" where
  "estimate_loop jit k [] acc = Inr acc"
| "estimate_loop jit k (detection # rest) (its, total_calories, total_protein, total_carbs, total_fat) =
     (case estimate_item (jit k) detection of
        Inl e \<Rightarrow> Inl e
      | Inr it \<Rightarrow>
          estimate_loop jit (Suc k) rest
            (its @ [it],
             total_calories + estimated_calories_kcal it,
             total_protein + estimated_protein_g it,
             total_carbs + estimated_carbs_g it,
             total_fat + estimated_fat_g it))"

definition package :: "totals \<Rightarrow> nutrition_result" where
  "package acc =
     (case acc of (its, total_calories, total_protein, total_carbs, total_fat) \<Rightarrow>
        \<lparr>items = its,
         total_calories_kcal = py_round total_calories 1,
         total_protein_g = py_round total_protein 1,
         total_carbs_g = py_round total_carbs 1,
         total_fat_g = py_round total_fat 1\<rparr>)"

definition estimate_nutrition :: "(nat \<Rightarrow> rat) \<Rightarrow> detected_item list \<Rightarrow> exn + nutrition_result" where
  "estimate_nutrition jit detected_items =
     (case estimate_loop jit 0 detected_items ([], 0, 0, 0, 0) of
        Inl e \<Rightarrow> Inl e
      | Inr acc \<Rightarrow> Inr (package acc))"

subsection \<open>The detection capability\<close>

type_synonym bytes = "8 word list"

text \<open>
  A prediction of the classifier is a dictionary; the code reads its keys
  \<^verbatim>\<open>label\<close> and \<^verbatim>\<open>score\<close>. The classifier is called with the image and \<^verbatim>\<open>top_k\<close>
  and may raise.
\<close>

type_synonym prediction = "pyval dict"

type_synonym 'img classifier = "'img \<Rightarrow> nat \<Rightarrow> exn + prediction list"

text \<open>
  What the module takes from \<^verbatim>\<open>transformers\<close> and \<^verbatim>\<open>PIL\<close>: whether the import
  succeeded, the constructor of the classification pipeline, \<^verbatim>\<open>Image.open\<close> on the
  bytes, the mode of an image and \<^verbatim>\<open>image.convert\<close>.
\<close>

record 'img externals =
  TRANSFORMERS_AVAILABLE :: bool
  load_pipeline :: "string \<Rightarrow> exn + 'img classifier"
  image_open :: "bytes \<Rightarrow> exn + 'img"
  image_mode :: "'img \<Rightarrow> string"
  image_convert :: "'img \<Rightarrow> string \<Rightarrow> exn + 'img"

record 'img FoodDetectionModel =
  model :: "'img classifier option"
  model_name :: string

text \<open>\<^verbatim>\<open>FoodDetectionModel._initialize_model\<close>\<close>

definition initialize_model ::
  "'img externals \<Rightarrow> 'img FoodDetectionModel \<Rightarrow> 'img FoodDetectionModel" where
  "initialize_model ext self =
     (if \<not> TRANSFORMERS_AVAILABLE ext then self
      else case load_pipeline ext (model_name self) of
             Inl e \<Rightarrow> self\<lparr>model := None\<rparr>
           | Inr m \<Rightarrow> self\<lparr>model := Some m\<rparr>)"

text \<open>\<^verbatim>\<open>FoodDetectionModel.__init__\<close>\<close>

definition init_FoodDetectionModel :: "'img externals \<Rightarrow> 'img FoodDetectionModel" where
  "init_FoodDetectionModel ext =
     initialize_model ext \<lparr>model = None, model_name = ''nateraw/food''\<rparr>"

definition detection_candidates :: "detected_item list" where
  "detection_candidates =
     [\<lparr>label = ''grilled_chicken'', display_name = ''Grilled Chicken'', confidence = PyFloat (87/100)\<rparr>,
      \<lparr>label = ''rice'', display_name = ''Rice'', confidence = PyFloat (82/100)\<rparr>,
      \<lparr>label = ''broccoli'', display_name = ''Broccoli'', confidence = PyFloat (78/100)\<rparr>,
      \<lparr>label = ''salad'', display_name = ''Salad'', confidence = PyFloat (75/100)\<rparr>,
      \<lparr>label = ''pasta'', display_name = ''Pasta'', confidence = PyFloat (73/100)\<rparr>,
      \<lparr>label = ''salmon'', display_name = ''Salmon'', confidence = PyFloat (71/100)\<rparr>]"

text \<open>\<^verbatim>\<open>FoodDetectionModel._fallback_detection\<close>\<close>

definition fallback_detection :: "random_source \<Rightarrow> detected_item list" where
  "fallback_detection rnd =
     (let candidates = shuffle (detection_shuffle rnd) detection_candidates
      in take (randint 2 3 (detection_count rnd)) candidates)"

text \<open>The loop over the predictions in \<^verbatim>\<open>detect_food_items\<close>.\<close>

fun convert_predictions :: "prediction list \<Rightarrow> detected_item list \<Rightarrow> exn + detected_item list" where
  "convert_predictions [] detected_items = Inr detected_items"
| "convert_predictions (pred # rest) detected_items =
     (case getitem pred ''label'' of
        Inl e \<Rightarrow> Inl e
      | Inr lab \<Rightarrow>
         (case getitem pred ''score'' of
            Inl e \<Rightarrow> Inl e
          | Inr conf \<Rightarrow>
             (case lab of
                PyStr l \<Rightarrow>
                  convert_predictions rest
                    (detected_items @
                       [\<lparr>label = l,
                         display_name = title (replace (CHR ''_'') (CHR '' '') l),
                         confidence = conf\<rparr>])
              | _ \<Rightarrow> Inl AttributeError)))"

text \<open>The body of the \<^verbatim>\<open>try\<close> block of \<^verbatim>\<open>detect_food_items\<close>.\<close>

definition detect_try ::
  "'img externals \<Rightarrow> 'img classifier \<Rightarrow> bytes \<Rightarrow> nat \<Rightarrow> exn + detected_item list" where
  "detect_try ext m image_bytes top_k =
     (case image_open ext image_bytes of
        Inl e \<Rightarrow> Inl e
      | Inr img \<Rightarrow>
         (case (if image_mode ext img \<noteq> ''RGB'' then image_convert ext img ''RGB''
                else Inr img) of
            Inl e \<Rightarrow> Inl e
          | Inr rgb \<Rightarrow>
             (case m rgb top_k of
                Inl e \<Rightarrow> Inl e
              | Inr predictions \<Rightarrow> convert_predictions predictions [])))"

definition detect_food_items ::
  "'img externals \<Rightarrow> random_source \<Rightarrow> 'img FoodDetectionModel \<Rightarrow> bytes \<Rightarrow> nat \<Rightarrow> detected_item list" where
  "detect_food_items ext rnd self image_bytes top_k =
     (case model self of
        None \<Rightarrow> fallback_detection rnd
      | Some m \<Rightarrow>
         (case detect_try ext m image_bytes top_k of
            Inl e \<Rightarrow> fallback_detection rnd
          | Inr detected_items \<Rightarrow> detected_items))"

text \<open>
  \<^verbatim>\<open>get_model\<close>: the global \<^verbatim>\<open>_model_instance\<close> is passed in and returned, \<open>None\<close>
  before the first call.
\<close>

definition get_model ::
  "'img externals \<Rightarrow> 'img FoodDetectionModel option
     \<Rightarrow> 'img FoodDetectionModel \<times> 'img FoodDetectionModel option" where
  "get_model ext model_instance =
     (case model_instance of
        None \<Rightarrow> (let m = init_FoodDetectionModel ext in (m, Some m))
      | Some m \<Rightarrow> (m, Some m))"

subsection \<open>The mock pipeline\<close>

text \<open>
  The dataclass \<^verbatim>\<open>FoodItemDetection\<close>; its fields \<^verbatim>\<open>label\<close> and \<^verbatim>\<open>confidence\<close>
  are the selectors \<open>label'\<close> and \<open>confidence'\<close>.
\<close>

datatype FoodItemDetection = FoodItemDetection (label': string) (confidence': rat)

definition DENSITY_TABLE_G_PER_ML :: "rat dict" where
  "DENSITY_TABLE_G_PER_ML =
     [(''grilled_chicken_breast'', 105/100),
      (''steamed_rice'', 85/100),
      (''broccoli'', 6/10),
      (''mixed_salad'', 3/10)]"

definition CALORIE_TABLE_KCAL_PER_100G :: "rat dict" where
  "CALORIE_TABLE_KCAL_PER_100G =
     [(''grilled_chicken_breast'', 165),
      (''steamed_rice'', 130),
      (''broccoli'', 55),
      (''mixed_salad'', 35)]"

definition DISPLAY_NAMES :: "string dict" where
  "DISPLAY_NAMES =
     [(''grilled_chicken_breast'', ''Grilled chicken breast''),
      (''steamed_rice'', ''Steamed rice''),
      (''broccoli'', ''Broccoli''),
      (''mixed_salad'', ''Mixed salad'')]"

definition MACROS_TABLE_PER_100G :: "rat dict dict" where
  "MACROS_TABLE_PER_100G =
     [(''grilled_chicken_breast'', [(''protein'', 31), (''carbs'', 0), (''fat'', 36/10)]),
      (''steamed_rice'', [(''protein'', 27/10), (''carbs'', 28), (''fat'', 3/10)]),
      (''broccoli'', [(''protein'', 37/10), (''carbs'', 7), (''fat'', 4/10)]),
      (''mixed_salad'', [(''protein'', 15/10), (''carbs'', 3), (''fat'', 2/10)])]"

definition mock_candidates :: "FoodItemDetection list" where
  "mock_candidates =
     [FoodItemDetection ''grilled_chicken_breast'' (78/100),
      FoodItemDetection ''steamed_rice'' (72/100),
      FoodItemDetection ''broccoli'' (68/100),
      FoodItemDetection ''mixed_salad'' (65/100)]"

definition mock_detect_food_items :: "random_source \<Rightarrow> FoodItemDetection list" where
  "mock_detect_food_items rnd =
     (let candidates = shuffle (mock_shuffle rnd) mock_candidates;
          n = randint 2 3 (mock_count rnd)
      in take n candidates)"

definition base_volumes :: "rat dict" where
  "base_volumes =
     [(''grilled_chicken_breast'', 120),
      (''steamed_rice'', 180),
      (''broccoli'', 90),
      (''mixed_salad'', 150)]"

text \<open>
  The loop of \<^verbatim>\<open>estimate_volumes_ml\<close>; \<open>k\<close> counts the calls of
  \<^verbatim>\<open>random.uniform(0.9, 1.1)\<close>.
\<close>

fun estimate_volumes_loop ::
  "(nat \<Rightarrow> rat) \<Rightarrow> nat \<Rightarrow> FoodItemDetection list \<Rightarrow> rat dict \<Rightarrow> rat dict" where
  "estimate_volumes_loop jit k [] volumes = volumes"
| "estimate_volumes_loop jit k (d # rest) volumes =
     (let v = dict_get base_volumes (label' d) 100;
          jitter = jit k
      in estimate_volumes_loop jit (Suc k) rest (setitem volumes (label' d) (py_round (v * jitter) 1)))"

definition estimate_volumes_ml :: "(nat \<Rightarrow> rat) \<Rightarrow> FoodItemDetection list \<Rightarrow> rat dict" where
  "estimate_volumes_ml jit detections = estimate_volumes_loop jit 0 detections []"

fun convert_loop :: "(string \<times> rat) list \<Rightarrow> rat dict \<Rightarrow> rat dict" where
  "convert_loop [] weights = weights"
| "convert_loop ((lab, vol_ml) # rest) weights =
     (let density = dict_get DENSITY_TABLE_G_PER_ML lab 1
      in convert_loop rest (setitem weights lab (py_round (vol_ml * density) 1)))"

definition convert_volume_to_weight_g :: "rat dict \<Rightarrow> rat dict" where
  "convert_volume_to_weight_g volumes_ml = convert_loop volumes_ml []"

fun calories_loop :: "(string \<times> rat) list \<Rightarrow> rat dict \<Rightarrow> rat dict" where
  "calories_loop [] calories = calories"
| "calories_loop ((lab, weight_g) # rest) calories =
     (let per_100 = dict_get CALORIE_TABLE_KCAL_PER_100G lab 100
      in calories_loop rest (setitem calories lab (py_round (weight_g * per_100 / 100) 1)))"

definition compute_calories_kcal :: "rat dict \<Rightarrow> rat dict" where
  "compute_calories_kcal weights_g = calories_loop weights_g []"

fun macros_loop :: "(string \<times> rat) list \<Rightarrow> rat dict dict \<Rightarrow> exn + rat dict dict" where
  "macros_loop [] result = Inr result"
| "macros_loop ((lab, weight_g) # rest) result =
     (let per100 = dict_get MACROS_TABLE_PER_100G lab
                     [(''protein'', 5), (''carbs'', 10), (''fat'', 2)];
          factor = weight_g / 100
      in (case getitem per100 ''protein'' of
            Inl e \<Rightarrow> Inl e
          | Inr protein \<Rightarrow>
             (case getitem per100 ''carbs'' of
                Inl e \<Rightarrow> Inl e
              | Inr carbs \<Rightarrow>
                 (case getitem per100 ''fat'' of
                    Inl e \<Rightarrow> Inl e
                  | Inr fat \<Rightarrow>
                      macros_loop rest
                        (setitem result lab
                           [(''protein_g'', py_round (protein * factor) 1),
                            (''carbs_g'', py_round (carbs * factor) 1),
                            (''fat_g'', py_round (fat * factor) 1)])))))"

definition compute_macros_grams :: "rat dict \<Rightarrow> exn + rat dict dict" where
  "compute_macros_grams weights_g = macros_loop weights_g []"

text \<open>The loop over the detections in \<^verbatim>\<open>run_fallback_pipeline\<close>.\<close>

fun fallback_loop ::
  "rat dict \<Rightarrow> rat dict \<Rightarrow> rat dict \<Rightarrow> rat dict dict \<Rightarrow> FoodItemDetection list \<Rightarrow> totals
     \<Rightarrow> exn + totals" where
  "fallback_loop volumes weights calories macros [] acc = Inr acc"
| "fallback_loop volumes weights calories macros (det # rest)
       (its, total_calories, total_protein, total_carbs, total_fat) =
     (case getitem volumes (label' det) of Inl e \<Rightarrow> Inl e | Inr vol_ml \<Rightarrow>
     (case getitem weights (label' det) of Inl e \<Rightarrow> Inl e | Inr w_g \<Rightarrow>
     (case getitem calories (label' det) of Inl e \<Rightarrow> Inl e | Inr kcal \<Rightarrow>
     (case getitem macros (label' det) of Inl e \<Rightarrow> Inl e | Inr macro \<Rightarrow>
     (case getitem macro ''protein_g'' of Inl e \<Rightarrow> Inl e | Inr protein_g \<Rightarrow>
     (case getitem macro ''carbs_g'' of Inl e \<Rightarrow> Inl e | Inr carbs_g \<Rightarrow>
     (case getitem macro ''fat_g'' of Inl e \<Rightarrow> Inl e | Inr fat_g \<Rightarrow>
        fallback_loop volumes weights calories macros rest
          (its @
             [\<lparr>name = dict_get DISPLAY_NAMES (label' det) (label' det),
               code = label' det,
               estimated_volume_ml = vol_ml,
               estimated_weight_g = w_g,
               estimated_calories_kcal = kcal,
               estimated_protein_g = protein_g,
               estimated_carbs_g = carbs_g,
               estimated_fat_g = fat_g,
               item_confidence = py_round (confidence' det) 2\<rparr>],
           total_calories + kcal,
           total_protein + protein_g,
           total_carbs + carbs_g,
           total_fat + fat_g))))))))"

text \<open>
  \<^verbatim>\<open>run_fallback_pipeline\<close> after its first line, for the detections that line gave.
\<close>

definition fallback_estimate ::
  "(nat \<Rightarrow> rat) \<Rightarrow> FoodItemDetection list \<Rightarrow> string option \<Rightarrow> exn + meal_result" where
  "fallback_estimate jit detections fname =
     (let volumes = estimate_volumes_ml jit detections;
          weights = convert_volume_to_weight_g volumes;
          calories = compute_calories_kcal weights
      in (case compute_macros_grams weights of
            Inl e \<Rightarrow> Inl e
          | Inr macros \<Rightarrow>
             (case fallback_loop volumes weights calories macros detections ([], 0, 0, 0, 0) of
                Inl e \<Rightarrow> Inl e
              | Inr (its, total_calories, total_protein, total_carbs, total_fat) \<Rightarrow>
                  Inr \<lparr>items = its,
                       total_calories_kcal = py_round total_calories 1,
                       total_protein_g = py_round total_protein 1,
                       total_carbs_g = py_round total_carbs 1,
                       total_fat_g = py_round total_fat 1,
                       pipeline = fallback_pipeline_info,
                       source = \<lparr>filename = fname\<rparr>\<rparr>)))"

definition run_fallback_pipeline :: "random_source \<Rightarrow> string option \<Rightarrow> exn + meal_result" where
  "run_fallback_pipeline rnd fname =
     (let detections = mock_detect_food_items rnd
      in fallback_estimate (volume_jitter rnd) detections fname)"

subsection \<open>The orchestrator\<close>

text \<open>
  The body of the \<^verbatim>\<open>try\<close> block of \<^verbatim>\<open>run_baseline_pipeline\<close>, with the value of the
  global model instance after it.
\<close>

definition primary_path ::
  "'img externals \<Rightarrow> random_source \<Rightarrow> 'img FoodDetectionModel option \<Rightarrow> bytes \<Rightarrow> string option
     \<Rightarrow> (exn + meal_result) \<times> 'img FoodDetectionModel option" where
  "primary_path ext rnd model_instance image_bytes fname =
     (case get_model ext model_instance of (m, model_instance') \<Rightarrow>
        (let detected_items = detect_food_items ext rnd m image_bytes 3
         in (case estimate_nutrition (serving_jitter rnd) detected_items of
               Inl e \<Rightarrow> Inl e
             | Inr nutrition_result \<Rightarrow>
                 Inr \<lparr>items = items nutrition_result,
                      total_calories_kcal = total_calories_kcal nutrition_result,
                      total_protein_g = total_protein_g nutrition_result,
                      total_carbs_g = total_carbs_g nutrition_result,
                      total_fat_g = total_fat_g nutrition_result,
                      pipeline = ml_pipeline_info,
                      source = \<lparr>filename = fname\<rparr>\<rparr>,
             model_instance')))"

definition run_baseline_pipeline ::
  "'img externals \<Rightarrow> random_source \<Rightarrow> 'img FoodDetectionModel option \<Rightarrow> bytes \<Rightarrow> string option
     \<Rightarrow> (exn + meal_result) \<times> 'img FoodDetectionModel option" where
  "run_baseline_pipeline ext rnd model_instance image_bytes fname =
     (case primary_path ext rnd model_instance image_bytes fname of
        (Inr result, model_instance') \<Rightarrow> (Inr result, model_instance')
      | (Inl e, model_instance') \<Rightarrow> (run_fallback_pipeline rnd fname, model_instance'))"

subsection \<open>Notions used by the properties\<close>

text \<open>The substrings that \<^verbatim>\<open>normalize_food_label\<close> tests, in its order.\<close>

definition keyword_substrings :: "string list" where
  "keyword_substrings =
     [''chicken'', ''salmon'', ''fish'', ''beef'', ''steak'', ''rice'', ''pasta'', ''spaghetti'',
      ''bread'', ''toast'', ''potato'', ''fries'', ''broccoli'', ''salad'', ''lettuce'', ''carrot'']"

text \<open>
  The display form of a label, as \<^verbatim>\<open>detect_food_items\<close> computes it:
  \<^verbatim>\<open>label.replace('_', ' ').title()\<close>.
\<close>

definition display_form :: "string \<Rightarrow> string" where
  "display_form l = title (replace (CHR ''_'') (CHR '' '') l)"

text \<open>A value that rounding to one decimal leaves unchanged.\<close>

definition rounded1 :: "rat \<Rightarrow> bool" where
  "rounded1 x \<longleftrightarrow> py_round x 1 = x"

text \<open>
  A result whose totals are the rounded sums of the item fields, the item fields being
  rounded values themselves.
\<close>

definition totals_consistent :: "'a nutrition_result_scheme \<Rightarrow> bool" where
  "totals_consistent r \<longleftrightarrow>
     total_calories_kcal r = py_round (sum_list (map estimated_calories_kcal (items r))) 1 \<and>
     total_protein_g r = py_round (sum_list (map estimated_protein_g (items r))) 1 \<and>
     total_carbs_g r = py_round (sum_list (map estimated_carbs_g (items r))) 1 \<and>
     total_fat_g r = py_round (sum_list (map estimated_fat_g (items r))) 1 \<and>
     (\<forall>it \<in> set (items r).
        rounded1 (estimated_calories_kcal it) \<and> rounded1 (estimated_protein_g it) \<and>
        rounded1 (estimated_carbs_g it) \<and> rounded1 (estimated_fat_g it))"

text \<open>Every draw of a jitter lies in the sampling range.\<close>

definition jitter_in :: "rat \<Rightarrow> rat \<Rightarrow> (nat \<Rightarrow> rat) \<Rightarrow> bool" where
  "jitter_in lo hi jit \<longleftrightarrow> (\<forall>k. lo \<le> jit k \<and> jit k \<le> hi)"

definition item_nonneg :: "item \<Rightarrow> bool" where
  "item_nonneg it \<longleftrightarrow>
     0 < estimated_weight_g it \<and> 0 \<le> estimated_volume_ml it \<and>
     0 \<le> estimated_calories_kcal it \<and> 0 \<le> estimated_protein_g it \<and>
     0 \<le> estimated_carbs_g it \<and> 0 \<le> estimated_fat_g it"

text \<open>
  The reference entry that \<^verbatim>\<open>estimate_nutrition\<close> uses for a code: the entry of the
  table, or the entry \<open>default\<close> of the literal table for a code that is no key.
\<close>

definition reference_of :: "string \<Rightarrow> food_reference" where
  "reference_of c = dict_get NUTRITION_DATABASE c (food 150 10 15 5 1 100)"

text \<open>
  The item that the mock pipeline builds for a detection whose volume is \<open>vol_ml\<close>:
  the weight from the density table, the calories and the macros from the weight.
\<close>

definition item_of_volume :: "FoodItemDetection \<Rightarrow> rat \<Rightarrow> item" where
  "item_of_volume det vol_ml =
     (let w_g = py_round (vol_ml * dict_get DENSITY_TABLE_G_PER_ML (label' det) 1) 1;
          per100 = dict_get MACROS_TABLE_PER_100G (label' det)
                     [(''protein'', 5), (''carbs'', 10), (''fat'', 2)]
      in \<lparr>name = dict_get DISPLAY_NAMES (label' det) (label' det),
          code = label' det,
          estimated_volume_ml = vol_ml,
          estimated_weight_g = w_g,
          estimated_calories_kcal =
            py_round (w_g * dict_get CALORIE_TABLE_KCAL_PER_100G (label' det) 100 / 100) 1,
          estimated_protein_g = py_round (dict_get per100 ''protein'' 0 * (w_g / 100)) 1,
          estimated_carbs_g = py_round (dict_get per100 ''carbs'' 0 * (w_g / 100)) 1,
          estimated_fat_g = py_round (dict_get per100 ''fat'' 0 * (w_g / 100)) 1,
          item_confidence = py_round (confidence' det) 2\<rparr>)"

text \<open>
  The entry that \<^verbatim>\<open>compute_macros_grams\<close> stores for a label whose weight is
  \<open>weight_g\<close>.
\<close>

definition macros_of_weight :: "string \<Rightarrow> rat \<Rightarrow> rat dict" where
  "macros_of_weight lab weight_g =
     (let per100 = dict_get MACROS_TABLE_PER_100G lab
                     [(''protein'', 5), (''carbs'', 10), (''fat'', 2)];
          factor = weight_g / 100
      in [(''protein_g'', py_round (dict_get per100 ''protein'' 0 * factor) 1),
          (''carbs_g'', py_round (dict_get per100 ''carbs'' 0 * factor) 1),
          (''fat_g'', py_round (dict_get per100 ''fat'' 0 * factor) 1)])"

text \<open>
  The items of the mock pipeline for the detections \<open>ds\<close>: one item for each
  detection, in the order of the detections, from the volume stored under its label.
\<close>

definition fallback_items :: "(nat \<Rightarrow> rat) \<Rightarrow> FoodItemDetection list \<Rightarrow> item list" where
  "fallback_items jit ds =
     map (\<lambda>d. item_of_volume d (dict_get (estimate_volumes_ml jit ds) (label' d) 0)) ds"

subsection \<open>Example inputs\<close>

definition example_rnd :: random_source where
  "example_rnd =
     \<lparr>detection_shuffle = (\<lambda>i. i + 3), detection_count = 5, serving_jitter = (\<lambda>k. 1),
      mock_shuffle = (\<lambda>i. 0), mock_count = 0, volume_jitter = (\<lambda>k. 1)\<rparr>"

text \<open>An installation without the \<^verbatim>\<open>transformers\<close> library: the model is never loaded.\<close>

definition ext_unavailable :: "unit externals" where
  "ext_unavailable =
     \<lparr>TRANSFORMERS_AVAILABLE = False,
      load_pipeline = (\<lambda>n. Inl (Exception ''no transformers'')),
      image_open = (\<lambda>b. Inr ()),
      image_mode = (\<lambda>i. ''RGB''),
      image_convert = (\<lambda>i m. Inr i)\<rparr>"

text \<open>An installation whose loaded classifier is \<open>c\<close> and whose image decoder accepts every input.\<close>

definition ext_with :: "unit classifier \<Rightarrow> unit externals" where
  "ext_with c =
     \<lparr>TRANSFORMERS_AVAILABLE = True,
      load_pipeline = (\<lambda>n. Inr c),
      image_open = (\<lambda>b. Inr ()),
      image_mode = (\<lambda>i. ''RGB''),
      image_convert = (\<lambda>i m. Inr i)\<rparr>"

definition raising_classifier :: "unit classifier" where
  "raising_classifier img top_k = Inl (Exception ''inference failed'')"

definition empty_classifier :: "unit classifier" where
  "empty_classifier img top_k = Inr []"

text \<open>A classifier whose prediction carries no number as its score.\<close>

definition unscored_classifier :: "unit classifier" where
  "unscored_classifier img top_k = Inr [[(''label'', PyStr ''pizza''), (''score'', PyNone)]]"

text \<open>A classifier that reports the same label twice.\<close>

definition repeating_classifier :: "unit classifier" where
  "repeating_classifier img top_k =
     Inr [[(''label'', PyStr ''broccoli''), (''score'', PyFloat (78/100))],
          [(''label'', PyStr ''broccoli''), (''score'', PyFloat (12/100))]]"

text \<open>Draws at the two ends of the sampling ranges of the jitters.\<close>

definition boundary_rnd :: random_source where
  "boundary_rnd =
     \<lparr>detection_shuffle = (\<lambda>i. 0), detection_count = 1,
      serving_jitter = (\<lambda>k. if even k then 8/10 else 12/10),
      mock_shuffle = (\<lambda>i. i), mock_count = 1,
      volume_jitter = (\<lambda>k. if even k then 9/10 else 11/10)\<rparr>"

text \<open>Detections that carry the same label twice, for each of the two paths.\<close>

definition duplicate_detections :: "detected_item list" where
  "duplicate_detections =
     [\<lparr>label = ''broccoli'', display_name = ''Broccoli'', confidence = PyFloat (78/100)\<rparr>,
      \<lparr>label = ''rice'', display_name = ''Rice'', confidence = PyFloat (50/100)\<rparr>,
      \<lparr>label = ''broccoli'', display_name = ''Broccoli'', confidence = PyFloat (12/100)\<rparr>]"

definition duplicate_mock_detections :: "FoodItemDetection list" where
  "duplicate_mock_detections =
     [FoodItemDetection ''broccoli'' (68/100),
      FoodItemDetection ''steamed_rice'' (72/100),
      FoodItemDetection ''broccoli'' (50/100)]"

text \<open>
  An installation whose loaded classifier is \<open>c\<close> and whose image decoder rejects every
  input, as \<^verbatim>\<open>Image.open\<close> does on bytes that are no image.
\<close>

definition ext_undecodable :: "unit classifier \<Rightarrow> unit externals" where
  "ext_undecodable c =
     \<lparr>TRANSFORMERS_AVAILABLE = True,
      load_pipeline = (\<lambda>n. Inr c),
      image_open = (\<lambda>b. Inl (Exception ''cannot identify image file'')),
      image_mode = (\<lambda>i. ''RGB''),
      image_convert = (\<lambda>i m. Inr i)\<rparr>"



section \<open>The label normalizer\<close>

lemma database_keys:
  "dict_in k NUTRITION_DATABASE \<longleftrightarrow>
     k \<in> {''grilled_chicken'', ''chicken_breast'', ''salmon'', ''steak'', ''rice'', ''pasta'',
          ''bread'', ''potato'', ''broccoli'', ''salad'', ''carrots'', ''default''}"
  unfolding dict_in_def NUTRITION_DATABASE_def by auto

text \<open>
  C5. For every input string, \<open>normalize_food_label\<close> returns a key of the nutrition
  reference table; an input whose lower-cased form is no key and contains no keyword
  resolves to \<open>default\<close>. The first part does not depend on how \<open>lower\<close> treats a
  character.
\<close>

theorem normalize_food_label_coverage:
  "dict_in (normalize_food_label l) NUTRITION_DATABASE \<and>
   (\<not> dict_in (replace (CHR ''_'') (CHR '' '') (lower l)) NUTRITION_DATABASE \<and>
    (\<forall>kw \<in> set keyword_substrings. \<not> contains kw (replace (CHR ''_'') (CHR '' '') (lower l)))
      \<longrightarrow> normalize_food_label l = ''default'')"
proof
  show "dict_in (normalize_food_label l) NUTRITION_DATABASE"
  proof (cases "dict_in (replace (CHR ''_'') (CHR '' '') (lower l)) NUTRITION_DATABASE")
    case True
    then show ?thesis by (simp add: normalize_food_label_def)
  next
    case False
    then show ?thesis
      unfolding normalize_food_label_def Let_def by (simp add: database_keys)
  qed
next
  show "\<not> dict_in (replace (CHR ''_'') (CHR '' '') (lower l)) NUTRITION_DATABASE \<and>
    (\<forall>kw \<in> set keyword_substrings. \<not> contains kw (replace (CHR ''_'') (CHR '' '') (lower l)))
      \<longrightarrow> normalize_food_label l = ''default''"
    unfolding normalize_food_label_def Let_def keyword_substrings_def by simp
qed

theorem normalize_food_label_coverage_witness:
  "dict_in (normalize_food_label '''') NUTRITION_DATABASE \<and>
   normalize_food_label '''' = ''default'' \<and>
   dict_in (normalize_food_label ''xyzzy_unknown_food'') NUTRITION_DATABASE \<and>
   normalize_food_label ''xyzzy_unknown_food'' = ''default''"
proof -
  have e: "\<not> dict_in (replace (CHR ''_'') (CHR '' '') (lower '''')) NUTRITION_DATABASE \<and>
    (\<forall>kw \<in> set keyword_substrings. \<not> contains kw (replace (CHR ''_'') (CHR '' '') (lower '''')))"
    by code_simp
  have x: "\<not> dict_in (replace (CHR ''_'') (CHR '' '') (lower ''xyzzy_unknown_food''))
             NUTRITION_DATABASE \<and>
    (\<forall>kw \<in> set keyword_substrings.
       \<not> contains kw (replace (CHR ''_'') (CHR '' '') (lower ''xyzzy_unknown_food'')))"
    by code_simp
  from normalize_food_label_coverage [of "''''"] e
    normalize_food_label_coverage [of "''xyzzy_unknown_food''"] x
  show ?thesis by blast
qed

text \<open>
  The exact-match branch looks up the label with its underscores turned into spaces,
  and two keys of the table are written with an underscore. One of them is reached
  through the keyword \<open>chicken\<close>; every other key but \<open>chicken_breast\<close> comes back
  from its display form.
\<close>

lemma normalize_display_form_other_keys:
  "dict_in k NUTRITION_DATABASE \<Longrightarrow> k \<noteq> ''chicken_breast''
     \<Longrightarrow> normalize_food_label (display_form k) = k \<and> normalize_food_label k = k"
  unfolding database_keys by (elim insertE emptyE; hypsubst; code_simp)

text \<open>
  C6. The round trip through the display form is not the identity on the keys of the
  table: the key \<open>chicken_breast\<close>, as it stands or in its display form
  \<open>Chicken Breast\<close>, is normalized to \<open>grilled_chicken\<close>.
\<close>

theorem normalize_display_form_chicken_breast:
  "dict_in ''chicken_breast'' NUTRITION_DATABASE \<and>
   display_form ''chicken_breast'' = ''Chicken Breast'' \<and>
   normalize_food_label (display_form ''chicken_breast'') = ''grilled_chicken'' \<and>
   normalize_food_label ''chicken_breast'' = ''grilled_chicken'' \<and>
   normalize_food_label (display_form ''chicken_breast'') \<noteq> ''chicken_breast''"
  by code_simp

section \<open>Rounding\<close>

lemma round_half_even_bounds:
  "y - 1 / 2 \<le> of_int (round_half_even y) \<and> of_int (round_half_even y) \<le> y + 1 / 2"
proof -
  define f where "f = \<lfloor>y\<rfloor>"
  have "of_int f \<le> y" "y < of_int f + 1"
    unfolding f_def by linarith+
  then show ?thesis
    unfolding round_half_even_def Let_def f_def [symmetric] by auto
qed

lemma round_half_even_of_int: "round_half_even (of_int k) = k"
  by (simp add: round_half_even_def)

lemma round_half_even_nonneg: "0 \<le> y \<Longrightarrow> 0 \<le> round_half_even y"
  unfolding round_half_even_def Let_def by (auto intro: add_nonneg_nonneg)

lemma py_round_nonneg: "0 \<le> x \<Longrightarrow> 0 \<le> py_round x n"
  unfolding py_round_def by (simp add: round_half_even_nonneg)

lemma py_round_idem: "py_round (py_round x n) n = py_round x n"
  unfolding py_round_def by (simp add: round_half_even_of_int)

lemma rounded1_py_round: "rounded1 (py_round x 1)"
  unfolding rounded1_def by (rule py_round_idem)

lemma py_round_near:
  "x - 1 / 20 \<le> py_round x 1 \<and> py_round x 1 \<le> x + 1 / 20"
  using round_half_even_bounds [of "x * 10"]
  unfolding py_round_def by (simp add: field_simps)

lemma py_round_pos: "1 / 10 \<le> x \<Longrightarrow> 0 < py_round x 1"
  using py_round_near [of x] by linarith

section \<open>Nutrition estimation for detected items\<close>

lemma default_entry: "getitem NUTRITION_DATABASE ''default'' = Inr (food 150 10 15 5 1 100)"
  by (simp add: getitem_def NUTRITION_DATABASE_def)

lemma estimate_item_Inr:
  assumes "estimate_item j d = Inr it"
  shows "code it = normalize_food_label (label d)"
    and "name it = display_name d"
    and "estimated_weight_g it = py_round (typical_serving_g (reference_of (code it)) * j) 1"
    and "estimated_volume_ml it =
           py_round (estimated_weight_g it / density_g_per_ml (reference_of (code it))) 1"
    and "estimated_calories_kcal it =
           py_round (calories_per_100g (reference_of (code it)) * (estimated_weight_g it / 100)) 1"
    and "estimated_protein_g it =
           py_round (protein_per_100g (reference_of (code it)) * (estimated_weight_g it / 100)) 1"
    and "estimated_carbs_g it =
           py_round (carbs_per_100g (reference_of (code it)) * (estimated_weight_g it / 100)) 1"
    and "estimated_fat_g it =
           py_round (fat_per_100g (reference_of (code it)) * (estimated_weight_g it / 100)) 1"
    and "confidence d = PyFloat (c::rat) \<Longrightarrow> item_confidence it = py_round c 2"
  using assms unfolding estimate_item_def Let_def reference_of_def round_val_def
  by (auto simp: default_entry split: sum.splits pyval.splits)

lemma estimate_item_total:
  "confidence d = PyFloat c \<Longrightarrow> \<exists>it. estimate_item j d = Inr it"
  unfolding estimate_item_def Let_def round_val_def by (simp add: default_entry)

lemma estimate_item_error:
  "estimate_item j d = Inl e \<Longrightarrow> e = TypeError \<and> (\<forall>c. confidence d \<noteq> PyFloat c)"
  unfolding estimate_item_def Let_def round_val_def
  by (auto simp: default_entry split: sum.splits pyval.splits)

lemma estimate_loop_Inr:
  "estimate_loop jit k ds (its, a, b, c, e) = Inr (its', a', b', c', e') \<Longrightarrow>
     \<exists>new. its' = its @ new \<and> length new = length ds \<and>
       (\<forall>i < length ds. estimate_item (jit (k + i)) (ds ! i) = Inr (new ! i)) \<and>
       a' = a + sum_list (map estimated_calories_kcal new) \<and>
       b' = b + sum_list (map estimated_protein_g new) \<and>
       c' = c + sum_list (map estimated_carbs_g new) \<and>
       e' = e + sum_list (map estimated_fat_g new)"
proof (induction ds arbitrary: k its a b c e)
  case Nil
  then show ?case by simp
next
  case (Cons d ds)
  from Cons.prems obtain it where it: "estimate_item (jit k) d = Inr it"
    and rest: "estimate_loop jit (Suc k) ds
        (its @ [it], a + estimated_calories_kcal it, b + estimated_protein_g it,
         c + estimated_carbs_g it, e + estimated_fat_g it) = Inr (its', a', b', c', e')"
    by (auto split: sum.splits)
  from Cons.IH [OF rest] obtain new where new:
    "its' = (its @ [it]) @ new" "length new = length ds"
    "\<forall>i < length ds. estimate_item (jit (Suc k + i)) (ds ! i) = Inr (new ! i)"
    "a' = a + estimated_calories_kcal it + sum_list (map estimated_calories_kcal new)"
    "b' = b + estimated_protein_g it + sum_list (map estimated_protein_g new)"
    "c' = c + estimated_carbs_g it + sum_list (map estimated_carbs_g new)"
    "e' = e + estimated_fat_g it + sum_list (map estimated_fat_g new)"
    by blast
  have "\<forall>i < length (d # ds). estimate_item (jit (k + i)) ((d # ds) ! i) = Inr ((it # new) ! i)"
  proof (intro allI impI)
    fix i assume "i < length (d # ds)"
    then show "estimate_item (jit (k + i)) ((d # ds) ! i) = Inr ((it # new) ! i)"
      using it new(3) by (cases i) auto
  qed
  with new show ?case
    by (intro exI [of _ "it # new"]) simp
qed

lemma estimate_loop_total:
  "\<forall>d \<in> set ds. \<exists>c. confidence d = PyFloat c
     \<Longrightarrow> \<exists>acc'. estimate_loop jit k ds (its, a, b, c, e) = Inr acc'"
proof (induction ds arbitrary: k its a b c e)
  case Nil
  then show ?case by simp
next
  case (Cons d ds)
  then obtain x where "confidence d = PyFloat x" by auto
  then obtain it where "estimate_item (jit k) d = Inr it"
    using estimate_item_total by blast
  then show ?case using Cons by simp
qed

lemma estimate_nutrition_Inr:
  assumes "estimate_nutrition jit ds = Inr r"
  shows "length (items r) = length ds"
    and "\<forall>i < length ds. estimate_item (jit i) (ds ! i) = Inr (items r ! i)"
    and "total_calories_kcal r = py_round (sum_list (map estimated_calories_kcal (items r))) 1"
    and "total_protein_g r = py_round (sum_list (map estimated_protein_g (items r))) 1"
    and "total_carbs_g r = py_round (sum_list (map estimated_carbs_g (items r))) 1"
    and "total_fat_g r = py_round (sum_list (map estimated_fat_g (items r))) 1"
proof -
  from assms obtain its a b c e where
    loop: "estimate_loop jit 0 ds ([], 0, 0, 0, 0) = Inr (its, a, b, c, e)"
    and r: "r = package (its, a, b, c, e)"
    unfolding estimate_nutrition_def by (auto split: sum.splits)
  from estimate_loop_Inr [OF loop] r
  show "length (items r) = length ds"
    and "\<forall>i < length ds. estimate_item (jit i) (ds ! i) = Inr (items r ! i)"
    and "total_calories_kcal r = py_round (sum_list (map estimated_calories_kcal (items r))) 1"
    and "total_protein_g r = py_round (sum_list (map estimated_protein_g (items r))) 1"
    and "total_carbs_g r = py_round (sum_list (map estimated_carbs_g (items r))) 1"
    and "total_fat_g r = py_round (sum_list (map estimated_fat_g (items r))) 1"
    by (auto simp: package_def)
qed

lemma estimate_nutrition_total:
  "\<forall>d \<in> set ds. \<exists>c. confidence d = PyFloat c \<Longrightarrow> \<exists>r. estimate_nutrition jit ds = Inr r"
  using estimate_loop_total [of ds jit 0 "[]" 0 0 0 0]
  unfolding estimate_nutrition_def by auto

section \<open>The detection capability\<close>

lemma shuffle_from_perm:
  "i < length xs \<Longrightarrow> mset (shuffle_from i r xs) = mset xs"
proof (induction i arbitrary: xs)
  case 0
  then show ?case by simp
next
  case (Suc i)
  define j where "j = r (Suc i) mod Suc (Suc i)"
  have "j < Suc (Suc i)"
    unfolding j_def by (rule mod_less_divisor) simp
  then have j: "j < length xs"
    using Suc.prems by linarith
  have "mset (xs[Suc i := xs ! j, j := xs ! Suc i]) = mset xs"
    using mset_swap [of j xs "Suc i"] j Suc.prems by simp
  moreover have "i < length (xs[Suc i := xs ! j, j := xs ! Suc i])"
    using Suc.prems by simp
  ultimately show ?case
    using Suc.IH [of "xs[Suc i := xs ! j, j := xs ! Suc i]"]
    by (simp add: j_def Let_def)
qed

lemma shuffle_perm: "mset (shuffle r xs) = mset xs"
proof (cases xs)
  case Nil
  then show ?thesis by (simp add: shuffle_def)
next
  case (Cons x ys)
  then show ?thesis
    unfolding shuffle_def by (intro shuffle_from_perm) simp
qed

lemma shuffle_facts:
  "length (shuffle r xs) = length xs"
  "set (shuffle r xs) = set xs"
  "distinct (shuffle r xs) = distinct xs"
proof -
  show "length (shuffle r xs) = length xs"
    by (rule mset_eq_length [OF shuffle_perm])
  show "set (shuffle r xs) = set xs"
    by (rule mset_eq_setD [OF shuffle_perm])
  show "distinct (shuffle r xs) = distinct xs"
    by (rule mset_eq_imp_distinct_iff [OF shuffle_perm])
qed

lemma randint_2_3: "randint 2 3 n = 2 \<or> randint 2 3 n = 3"
  unfolding randint_def by (simp add: numeral_3_eq_3) presburger

lemma detection_candidates_facts:
  "length detection_candidates = 6"
  "distinct detection_candidates"
  "\<forall>d \<in> set detection_candidates. \<exists>c. confidence d = PyFloat c"
  unfolding detection_candidates_def by (simp_all del: pyval.inject) blast

lemma fallback_detection_facts:
  "length (fallback_detection rnd) = 2 \<or> length (fallback_detection rnd) = 3"
  "distinct (fallback_detection rnd)"
  "set (fallback_detection rnd) \<subseteq> set detection_candidates"
proof -
  show "length (fallback_detection rnd) = 2 \<or> length (fallback_detection rnd) = 3"
    using randint_2_3 [of "detection_count rnd"]
    unfolding fallback_detection_def Let_def
    by (auto simp: shuffle_facts detection_candidates_facts)
  show "distinct (fallback_detection rnd)"
    unfolding fallback_detection_def Let_def
    by (simp add: shuffle_facts detection_candidates_facts)
  show "set (fallback_detection rnd) \<subseteq> set detection_candidates"
    unfolding fallback_detection_def Let_def
    using set_take_subset [of _ "shuffle (detection_shuffle rnd) detection_candidates"]
    by (simp add: shuffle_facts)
qed

lemma fallback_detection_numeric:
  "\<forall>d \<in> set (fallback_detection rnd). \<exists>c. confidence d = PyFloat c"
  using fallback_detection_facts(3) [of rnd] detection_candidates_facts(3) by blast

text \<open>
  The three ways in which the \<^verbatim>\<open>try\<close> block of \<^verbatim>\<open>detect_food_items\<close> raises: the
  bytes do not decode, the conversion to RGB fails, or the classifier raises.
\<close>

lemma detect_try_decode_error:
  "image_open ext image_bytes = Inl e \<Longrightarrow> detect_try ext m image_bytes top_k = Inl e"
  by (simp add: detect_try_def)

lemma detect_try_convert_error:
  "image_open ext image_bytes = Inr img \<Longrightarrow> image_mode ext img \<noteq> ''RGB''
     \<Longrightarrow> image_convert ext img ''RGB'' = Inl e \<Longrightarrow> detect_try ext m image_bytes top_k = Inl e"
  by (simp add: detect_try_def)

lemma detect_try_inference_error:
  "image_open ext image_bytes = Inr img \<Longrightarrow> image_mode ext img = ''RGB''
     \<Longrightarrow> m img top_k = Inl e \<Longrightarrow> detect_try ext m image_bytes top_k = Inl e"
  by (simp add: detect_try_def)

lemma detect_food_items_fallback:
  "model self = None \<or> (\<exists>m e. model self = Some m \<and> detect_try ext m image_bytes top_k = Inl e)
     \<Longrightarrow> detect_food_items ext rnd self image_bytes top_k = fallback_detection rnd"
  unfolding detect_food_items_def by auto

text \<open>The \<^verbatim>\<open>try\<close> block of the orchestrator succeeds once every score is a number.\<close>

lemma primary_path_numeric:
  assumes "\<forall>d \<in> set (detect_food_items ext rnd (fst (get_model ext inst)) image_bytes 3).
             \<exists>c. confidence d = PyFloat c"
  shows "\<exists>nr. estimate_nutrition (serving_jitter rnd)
                 (detect_food_items ext rnd (fst (get_model ext inst)) image_bytes 3) = Inr nr \<and>
           primary_path ext rnd inst image_bytes fname =
             (Inr \<lparr>items = items nr,
                   total_calories_kcal = total_calories_kcal nr,
                   total_protein_g = total_protein_g nr,
                   total_carbs_g = total_carbs_g nr,
                   total_fat_g = total_fat_g nr,
                   pipeline = ml_pipeline_info,
                   source = \<lparr>filename = fname\<rparr>\<rparr>,
              snd (get_model ext inst))"
proof -
  from estimate_nutrition_total [OF assms] obtain nr where
    "estimate_nutrition (serving_jitter rnd)
       (detect_food_items ext rnd (fst (get_model ext inst)) image_bytes 3) = Inr nr"
    by blast
  then show ?thesis
    unfolding primary_path_def Let_def by (auto split: prod.splits)
qed

lemma run_baseline_pipeline_primary:
  "primary_path ext rnd inst image_bytes fname = (Inr r, inst')
     \<Longrightarrow> run_baseline_pipeline ext rnd inst image_bytes fname = (Inr r, inst')"
  by (simp add: run_baseline_pipeline_def)

text \<open>
  C10. When the model is not loaded or the \<^verbatim>\<open>try\<close> block of \<open>detect_food_items\<close>
  raises (decoding, conversion, inference or a malformed prediction), the function
  returns the mock detections: two or three distinct members of the six candidates,
  with their preset confidences. The orchestrator then completes its \<^verbatim>\<open>try\<close> block
  and labels the result with the version \<open>ml-powered-1.0\<close>.
\<close>

theorem detect_food_items_total:
  assumes "self = fst (get_model ext inst)"
    and "model self = None \<or>
         (\<exists>m e. model self = Some m \<and> detect_try ext m image_bytes 3 = Inl e)"
  shows "detect_food_items ext rnd self image_bytes 3 = fallback_detection rnd \<and>
         (length (fallback_detection rnd) = 2 \<or> length (fallback_detection rnd) = 3) \<and>
         distinct (fallback_detection rnd) \<and>
         set (fallback_detection rnd) \<subseteq> set detection_candidates \<and>
         (\<exists>r. run_baseline_pipeline ext rnd inst image_bytes fname =
                 (Inr r, snd (get_model ext inst)) \<and>
               version (pipeline r) = ''ml-powered-1.0'' \<and>
               version (pipeline r) \<noteq> version fallback_pipeline_info \<and>
               map name (items r) = map display_name (fallback_detection rnd))"
proof -
  have det: "detect_food_items ext rnd self image_bytes 3 = fallback_detection rnd"
    using assms(2) by (rule detect_food_items_fallback)
  then have "\<forall>d \<in> set (detect_food_items ext rnd (fst (get_model ext inst)) image_bytes 3).
               \<exists>c. confidence d = PyFloat c"
    using fallback_detection_numeric assms(1) by simp
  from primary_path_numeric [OF this, of fname] obtain nr where
    nr: "estimate_nutrition (serving_jitter rnd) (fallback_detection rnd) = Inr nr"
    and prim: "primary_path ext rnd inst image_bytes fname =
             (Inr \<lparr>items = items nr,
                   total_calories_kcal = total_calories_kcal nr,
                   total_protein_g = total_protein_g nr,
                   total_carbs_g = total_carbs_g nr,
                   total_fat_g = total_fat_g nr,
                   pipeline = ml_pipeline_info,
                   source = \<lparr>filename = fname\<rparr>\<rparr>,
              snd (get_model ext inst))"
    using det assms(1) by auto
  have names: "map name (items nr) = map display_name (fallback_detection rnd)"
  proof (rule nth_equalityI)
    show "length (map name (items nr)) = length (map display_name (fallback_detection rnd))"
      using estimate_nutrition_Inr(1) [OF nr] by simp
  next
    fix i assume "i < length (map name (items nr))"
    then have i: "i < length (fallback_detection rnd)"
      using estimate_nutrition_Inr(1) [OF nr] by simp
    with estimate_nutrition_Inr(2) [OF nr]
    have "estimate_item (serving_jitter rnd i) (fallback_detection rnd ! i) = Inr (items nr ! i)"
      by blast
    from estimate_item_Inr(2) [OF this] i estimate_nutrition_Inr(1) [OF nr]
    show "map name (items nr) ! i = map display_name (fallback_detection rnd) ! i"
      by simp
  qed
  have "version ml_pipeline_info = ''ml-powered-1.0''"
    "version ml_pipeline_info \<noteq> version fallback_pipeline_info"
    by (simp_all add: ml_pipeline_info_def fallback_pipeline_info_def)
  with run_baseline_pipeline_primary [OF prim] names det fallback_detection_facts [of rnd]
  show ?thesis by auto
qed

theorem detect_food_items_total_witness:
  "detect_food_items ext_unavailable example_rnd (fst (get_model ext_unavailable None))
       [255, 216] 3 = fallback_detection example_rnd \<and>
   (length (fallback_detection example_rnd) = 2 \<or> length (fallback_detection example_rnd) = 3) \<and>
   distinct (fallback_detection example_rnd) \<and>
   set (fallback_detection example_rnd) \<subseteq> set detection_candidates \<and>
   (\<exists>r. run_baseline_pipeline ext_unavailable example_rnd None [255, 216] (Some ''meal.jpg'') =
           (Inr r, snd (get_model ext_unavailable None)) \<and>
         version (pipeline r) = ''ml-powered-1.0'' \<and>
         version (pipeline r) \<noteq> version fallback_pipeline_info \<and>
         map name (items r) = map display_name (fallback_detection example_rnd))"
proof -
  have "model (fst (get_model ext_unavailable None)) = None"
    by (simp add: get_model_def init_FoodDetectionModel_def initialize_model_def
        ext_unavailable_def Let_def)
  then show ?thesis
    using detect_food_items_total [OF refl, of ext_unavailable None "[255, 216]" example_rnd
        "Some ''meal.jpg''"]
    by blast
qed

section \<open>The orchestrator and a detection capability that fails\<close>

lemma py_round_zero: "py_round 0 n = 0"
  by (simp add: py_round_def round_half_even_def)

text \<open>
  C3. With the model never loaded, and with a loaded classifier that raises at every
  call, \<open>run_baseline_pipeline\<close> returns three of the mock detections of
  \<open>_fallback_detection\<close> under the metadata of the model-backed path: the version is
  \<open>ml-powered-1.0\<close>, not the version \<open>fallback-mock-0.1\<close> of the mock pipeline.
\<close>

theorem run_baseline_pipeline_failure_version:
  "(case model (fst (get_model ext_unavailable None)) of None \<Rightarrow> True | Some m \<Rightarrow> False) \<and>
   map_sum id (\<lambda>r. (map name (items r), version (pipeline r), notes' (pipeline r)))
      (fst (run_baseline_pipeline ext_unavailable example_rnd None [255, 216] None)) =
     Inr ([''Rice'', ''Grilled Chicken'', ''Salad''], ''ml-powered-1.0'',
          ''Real ML-based food recognition using Vision Transformer trained on Food101 dataset.'') \<and>
   detect_try (ext_with raising_classifier) raising_classifier [255, 216] 3 =
     Inl (Exception ''inference failed'') \<and>
   map_sum id (\<lambda>r. (map name (items r), version (pipeline r), notes' (pipeline r)))
      (fst (run_baseline_pipeline (ext_with raising_classifier) example_rnd None [255, 216] None)) =
     Inr ([''Rice'', ''Grilled Chicken'', ''Salad''], ''ml-powered-1.0'',
          ''Real ML-based food recognition using Vision Transformer trained on Food101 dataset.'') \<and>
   version fallback_pipeline_info = ''fallback-mock-0.1''"
  by code_simp

text \<open>
  A classifier that returns no prediction: the detection is the empty list, nothing
  raises, and the orchestrator returns the empty result of the model-backed path.
\<close>

theorem run_baseline_pipeline_empty_detection_example:
  "detect_food_items (ext_with empty_classifier) example_rnd
       (fst (get_model (ext_with empty_classifier) None)) [255, 216] 3 = [] \<and>
   fst (run_baseline_pipeline (ext_with empty_classifier) example_rnd None [255, 216] None) =
     Inr \<lparr>items = [], total_calories_kcal = 0, total_protein_g = 0, total_carbs_g = 0,
          total_fat_g = 0, pipeline = ml_pipeline_info, source = \<lparr>filename = None\<rparr>\<rparr> \<and>
   fst (run_baseline_pipeline (ext_with empty_classifier) example_rnd None [255, 216] None) \<noteq>
     run_fallback_pipeline example_rnd None"
  by code_simp

text \<open>
  C4, as the code has it. When the detection returns no item, the orchestrator does not
  turn to the mock pipeline: the result has no items, the four totals are \<open>0\<close>, and
  the metadata is that of the model-backed path.
\<close>

theorem run_baseline_pipeline_no_detections:
  assumes "detect_food_items ext rnd (fst (get_model ext inst)) image_bytes 3 = []"
  shows "run_baseline_pipeline ext rnd inst image_bytes fname =
           (Inr \<lparr>items = [], total_calories_kcal = 0, total_protein_g = 0, total_carbs_g = 0,
                  total_fat_g = 0, pipeline = ml_pipeline_info,
                  source = \<lparr>filename = fname\<rparr>\<rparr>,
            snd (get_model ext inst))"
proof -
  obtain m mi where g: "get_model ext inst = (m, mi)"
    by (cases "get_model ext inst")
  with assms have d: "detect_food_items ext rnd m image_bytes 3 = []"
    by simp
  show ?thesis
    unfolding run_baseline_pipeline_def primary_path_def estimate_nutrition_def package_def Let_def
    by (simp add: g d py_round_zero)
qed

theorem run_baseline_pipeline_no_detections_witness:
  "detect_food_items (ext_with empty_classifier) example_rnd
       (fst (get_model (ext_with empty_classifier) None)) [1, 2, 3] 3 = [] \<and>
   fst (run_baseline_pipeline (ext_with empty_classifier) example_rnd None [1, 2, 3]
          (Some ''meal.jpg'')) =
     Inr \<lparr>items = [], total_calories_kcal = 0, total_protein_g = 0, total_carbs_g = 0,
          total_fat_g = 0, pipeline = ml_pipeline_info,
          source = \<lparr>filename = Some ''meal.jpg''\<rparr>\<rparr>"
proof -
  have h: "detect_food_items (ext_with empty_classifier) example_rnd
       (fst (get_model (ext_with empty_classifier) None)) [1, 2, 3] 3 = []"
    by code_simp
  from run_baseline_pipeline_no_detections [OF h, of "Some ''meal.jpg''"] h
  show ?thesis by simp
qed

section \<open>The mock pipeline\<close>

lemma getitem_Some: "map_of d k = Some v \<Longrightarrow> getitem d k = Inr v"
  by (simp add: getitem_def)

lemma dict_get_Some: "map_of d k = Some v \<Longrightarrow> dict_get d k w = v"
  by (simp add: dict_get_def)

lemma map_of_setitem: "map_of (setitem d k v) = (map_of d)(k \<mapsto> v)"
  by (simp add: setitem_def update_conv')

lemma distinct_setitem: "distinct (map fst d) \<Longrightarrow> distinct (map fst (setitem d k v))"
  by (simp add: setitem_def distinct_update)

subsection \<open>The volumes\<close>

lemma estimate_volumes_loop_distinct:
  "distinct (map fst vols) \<Longrightarrow> distinct (map fst (estimate_volumes_loop jit k ds vols))"
  by (induction ds arbitrary: k vols) (simp_all add: Let_def distinct_setitem)

lemma estimate_volumes_loop_other:
  "l \<notin> label' ` set ds \<Longrightarrow> map_of (estimate_volumes_loop jit k ds vols) l = map_of vols l"
  by (induction ds arbitrary: k vols) (auto simp: Let_def map_of_setitem)

lemma estimate_volumes_loop_at:
  "distinct (map label' ds) \<Longrightarrow> i < length ds \<Longrightarrow>
     map_of (estimate_volumes_loop jit k ds vols) (label' (ds ! i)) =
       Some (py_round (dict_get base_volumes (label' (ds ! i)) 100 * jit (k + i)) 1)"
proof (induction ds arbitrary: k vols i)
  case Nil
  then show ?case by simp
next
  case (Cons d ds)
  show ?case
  proof (cases i)
    case 0
    from Cons.prems(1) have "label' d \<notin> label' ` set ds" by simp
    from estimate_volumes_loop_other [OF this] 0 show ?thesis
      by (simp add: Let_def map_of_setitem)
  next
    case (Suc j)
    with Cons.prems have "distinct (map label' ds)" "j < length ds" by simp_all
    from Cons.IH [OF this] Suc show ?thesis
      by (simp add: Let_def)
  qed
qed

lemma estimate_volumes_loop_label:
  "l \<in> label' ` set ds \<Longrightarrow>
     \<exists>i < length ds. label' (ds ! i) = l \<and>
       map_of (estimate_volumes_loop jit k ds vols) l =
         Some (py_round (dict_get base_volumes l 100 * jit (k + i)) 1)"
proof (induction ds arbitrary: k vols)
  case Nil
  then show ?case by simp
next
  case (Cons x ds)
  show ?case
  proof (cases "l \<in> label' ` set ds")
    case True
    from Cons.IH [OF True, of "Suc k" "setitem vols (label' x)
        (py_round (dict_get base_volumes (label' x) 100 * jit k) 1)"]
    obtain i where "i < length ds" "label' (ds ! i) = l"
      "map_of (estimate_volumes_loop jit (Suc k) ds (setitem vols (label' x)
          (py_round (dict_get base_volumes (label' x) 100 * jit k) 1))) l =
         Some (py_round (dict_get base_volumes l 100 * jit (Suc k + i)) 1)"
      by auto
    then show ?thesis
      by (intro exI [of _ "Suc i"]) (simp add: Let_def)
  next
    case False
    with Cons.prems have "l = label' x" by auto
    with estimate_volumes_loop_other [OF False] show ?thesis
      by (intro exI [of _ 0]) (simp add: Let_def map_of_setitem)
  qed
qed

lemma estimate_volumes_ml_distinct: "distinct (map fst (estimate_volumes_ml jit ds))"
  unfolding estimate_volumes_ml_def by (rule estimate_volumes_loop_distinct) simp

lemma estimate_volumes_ml_mem:
  "d \<in> set ds \<Longrightarrow>
     \<exists>i < length ds. label' (ds ! i) = label' d \<and>
       map_of (estimate_volumes_ml jit ds) (label' d) =
         Some (py_round (dict_get base_volumes (label' d) 100 * jit i) 1)"
  unfolding estimate_volumes_ml_def
  using estimate_volumes_loop_label [of "label' d" ds jit 0 "[]"] by simp

lemma estimate_volumes_ml_at:
  "distinct (map label' ds) \<Longrightarrow> i < length ds \<Longrightarrow>
     map_of (estimate_volumes_ml jit ds) (label' (ds ! i)) =
       Some (py_round (dict_get base_volumes (label' (ds ! i)) 100 * jit i) 1)"
  unfolding estimate_volumes_ml_def using estimate_volumes_loop_at [of ds i jit 0 "[]"] by simp

subsection \<open>The weights, calories and macros\<close>

lemma convert_loop_distinct:
  "distinct (map fst acc) \<Longrightarrow> distinct (map fst (convert_loop al acc))"
  by (induction al arbitrary: acc) (auto simp: Let_def distinct_setitem)

lemma convert_loop_map_of:
  "distinct (map fst al) \<Longrightarrow>
     map_of (convert_loop al acc) l =
       (case map_of al l of
          Some v \<Rightarrow> Some (py_round (v * dict_get DENSITY_TABLE_G_PER_ML l 1) 1)
        | None \<Rightarrow> map_of acc l)"
proof (induction al arbitrary: acc)
  case Nil
  then show ?case by simp
next
  case (Cons p al)
  obtain k v where p: "p = (k, v)" by (cases p)
  with Cons.prems have k: "map_of al k = None" and d: "distinct (map fst al)"
    by (simp_all add: map_of_eq_None_iff)
  show ?case
    using k by (simp add: p Let_def Cons.IH [OF d] map_of_setitem split: option.splits)
qed

lemma calories_loop_map_of:
  "distinct (map fst al) \<Longrightarrow>
     map_of (calories_loop al acc) l =
       (case map_of al l of
          Some w \<Rightarrow> Some (py_round (w * dict_get CALORIE_TABLE_KCAL_PER_100G l 100 / 100) 1)
        | None \<Rightarrow> map_of acc l)"
proof (induction al arbitrary: acc)
  case Nil
  then show ?case by simp
next
  case (Cons p al)
  obtain k v where p: "p = (k, v)" by (cases p)
  with Cons.prems have k: "map_of al k = None" and d: "distinct (map fst al)"
    by (simp_all add: map_of_eq_None_iff)
  show ?case
    using k by (simp add: p Let_def Cons.IH [OF d] map_of_setitem split: option.splits)
qed

lemma macros_entry_keys:
  "getitem (dict_get MACROS_TABLE_PER_100G l [(''protein'', 5), (''carbs'', 10), (''fat'', 2)]) ''protein'' =
     Inr (dict_get (dict_get MACROS_TABLE_PER_100G l [(''protein'', 5), (''carbs'', 10), (''fat'', 2)])
            ''protein'' 0)"
  "getitem (dict_get MACROS_TABLE_PER_100G l [(''protein'', 5), (''carbs'', 10), (''fat'', 2)]) ''carbs'' =
     Inr (dict_get (dict_get MACROS_TABLE_PER_100G l [(''protein'', 5), (''carbs'', 10), (''fat'', 2)])
            ''carbs'' 0)"
  "getitem (dict_get MACROS_TABLE_PER_100G l [(''protein'', 5), (''carbs'', 10), (''fat'', 2)]) ''fat'' =
     Inr (dict_get (dict_get MACROS_TABLE_PER_100G l [(''protein'', 5), (''carbs'', 10), (''fat'', 2)])
            ''fat'' 0)"
  by (simp_all add: dict_get_def getitem_def MACROS_TABLE_PER_100G_def)

lemma macros_entry_nonneg:
  "0 \<le> dict_get (dict_get MACROS_TABLE_PER_100G l [(''protein'', 5), (''carbs'', 10), (''fat'', 2)])
          ''protein'' 0"
  "0 \<le> dict_get (dict_get MACROS_TABLE_PER_100G l [(''protein'', 5), (''carbs'', 10), (''fat'', 2)])
          ''carbs'' 0"
  "0 \<le> dict_get (dict_get MACROS_TABLE_PER_100G l [(''protein'', 5), (''carbs'', 10), (''fat'', 2)])
          ''fat'' 0"
  by (simp_all add: dict_get_def MACROS_TABLE_PER_100G_def)

lemma macros_loop_map_of:
  "distinct (map fst al) \<Longrightarrow>
     \<exists>res. macros_loop al acc = Inr res \<and>
       (\<forall>l. map_of res l =
          (case map_of al l of
             Some w \<Rightarrow> Some (macros_of_weight l w)
           | None \<Rightarrow> map_of acc l))"
proof (induction al arbitrary: acc)
  case Nil
  then show ?case by simp
next
  case (Cons q al)
  obtain k w where q: "q = (k, w)" by (cases q)
  with Cons.prems have k: "map_of al k = None" and d: "distinct (map fst al)"
    by (simp_all add: map_of_eq_None_iff)
  from Cons.IH [OF d, of "setitem acc k (macros_of_weight k w)"] obtain res where
    res: "macros_loop al (setitem acc k (macros_of_weight k w)) = Inr res"
      "\<forall>l. map_of res l =
          (case map_of al l of
             Some w \<Rightarrow> Some (macros_of_weight l w)
           | None \<Rightarrow> map_of (setitem acc k (macros_of_weight k w)) l)"
    by blast
  have step: "macros_loop (q # al) acc = macros_loop al (setitem acc k (macros_of_weight k w))"
    by (simp add: q Let_def macros_entry_keys macros_of_weight_def)
  show ?case
    unfolding step using res k
    by (auto simp: q map_of_setitem split: option.splits)
qed

subsection \<open>The items and the totals\<close>

lemma fallback_loop_Inr:
  assumes "\<forall>d \<in> set ds.
             map_of volumes (label' d) = Some (V (label' d)) \<and>
             map_of weights (label' d) =
               Some (py_round (V (label' d) * dict_get DENSITY_TABLE_G_PER_ML (label' d) 1) 1) \<and>
             map_of calories (label' d) =
               Some (py_round (py_round (V (label' d) * dict_get DENSITY_TABLE_G_PER_ML (label' d) 1) 1
                       * dict_get CALORIE_TABLE_KCAL_PER_100G (label' d) 100 / 100) 1) \<and>
             map_of macros (label' d) =
               Some (macros_of_weight (label' d)
                 (py_round (V (label' d) * dict_get DENSITY_TABLE_G_PER_ML (label' d) 1) 1))"
  shows "fallback_loop volumes weights calories macros ds (its, a, b, c, e) =
           Inr (its @ map (\<lambda>d. item_of_volume d (V (label' d))) ds,
                a + sum_list (map (\<lambda>d. estimated_calories_kcal (item_of_volume d (V (label' d)))) ds),
                b + sum_list (map (\<lambda>d. estimated_protein_g (item_of_volume d (V (label' d)))) ds),
                c + sum_list (map (\<lambda>d. estimated_carbs_g (item_of_volume d (V (label' d)))) ds),
                e + sum_list (map (\<lambda>d. estimated_fat_g (item_of_volume d (V (label' d)))) ds))"
  using assms
proof (induction ds arbitrary: its a b c e)
  case Nil
  then show ?case by simp
next
  case (Cons d ds)
  define w where "w = py_round (V (label' d) * dict_get DENSITY_TABLE_G_PER_ML (label' d) 1) 1"
  from Cons.prems have
    g: "getitem volumes (label' d) = Inr (V (label' d))"
       "getitem weights (label' d) = Inr w"
       "getitem calories (label' d) =
          Inr (py_round (w * dict_get CALORIE_TABLE_KCAL_PER_100G (label' d) 100 / 100) 1)"
       "getitem macros (label' d) = Inr (macros_of_weight (label' d) w)"
    by (simp_all add: getitem_Some w_def)
  have m: "getitem (macros_of_weight (label' d) w) ''protein_g'' =
             Inr (estimated_protein_g (item_of_volume d (V (label' d))))"
          "getitem (macros_of_weight (label' d) w) ''carbs_g'' =
             Inr (estimated_carbs_g (item_of_volume d (V (label' d))))"
          "getitem (macros_of_weight (label' d) w) ''fat_g'' =
             Inr (estimated_fat_g (item_of_volume d (V (label' d))))"
    by (simp_all add: macros_of_weight_def item_of_volume_def getitem_def Let_def w_def)
  have it: "\<lparr>name = dict_get DISPLAY_NAMES (label' d) (label' d), code = label' d,
              estimated_volume_ml = V (label' d), estimated_weight_g = w,
              estimated_calories_kcal = estimated_calories_kcal (item_of_volume d (V (label' d))),
              estimated_protein_g = estimated_protein_g (item_of_volume d (V (label' d))),
              estimated_carbs_g = estimated_carbs_g (item_of_volume d (V (label' d))),
              estimated_fat_g = estimated_fat_g (item_of_volume d (V (label' d))),
              item_confidence = py_round (confidence' d) 2\<rparr> = item_of_volume d (V (label' d))"
    by (simp add: item_of_volume_def Let_def w_def)
  have k: "estimated_calories_kcal (item_of_volume d (V (label' d))) =
             py_round (w * dict_get CALORIE_TABLE_KCAL_PER_100G (label' d) 100 / 100) 1"
    by (simp add: item_of_volume_def Let_def w_def)
  from Cons.prems have rest: "\<forall>d \<in> set ds.
             map_of volumes (label' d) = Some (V (label' d)) \<and>
             map_of weights (label' d) =
               Some (py_round (V (label' d) * dict_get DENSITY_TABLE_G_PER_ML (label' d) 1) 1) \<and>
             map_of calories (label' d) =
               Some (py_round (py_round (V (label' d) * dict_get DENSITY_TABLE_G_PER_ML (label' d) 1) 1
                       * dict_get CALORIE_TABLE_KCAL_PER_100G (label' d) 100 / 100) 1) \<and>
             map_of macros (label' d) =
               Some (macros_of_weight (label' d)
                 (py_round (V (label' d) * dict_get DENSITY_TABLE_G_PER_ML (label' d) 1) 1))"
    by simp
  show ?case
    by (simp add: g m it k [symmetric] Cons.IH [OF rest] add.assoc del: One_nat_def)
qed

lemma fallback_estimate_Inr:
  "fallback_estimate jit ds fname =
     Inr \<lparr>items = fallback_items jit ds,
          total_calories_kcal = py_round (sum_list (map estimated_calories_kcal (fallback_items jit ds))) 1,
          total_protein_g = py_round (sum_list (map estimated_protein_g (fallback_items jit ds))) 1,
          total_carbs_g = py_round (sum_list (map estimated_carbs_g (fallback_items jit ds))) 1,
          total_fat_g = py_round (sum_list (map estimated_fat_g (fallback_items jit ds))) 1,
          pipeline = fallback_pipeline_info,
          source = \<lparr>filename = fname\<rparr>\<rparr>"
proof -
  define volumes where "volumes = estimate_volumes_ml jit ds"
  define weights where "weights = convert_volume_to_weight_g volumes"
  define calories where "calories = compute_calories_kcal weights"
  define V where "V = (\<lambda>l. dict_get volumes l 0)"
  have dv: "distinct (map fst volumes)"
    unfolding volumes_def by (rule estimate_volumes_ml_distinct)
  have dw: "distinct (map fst weights)"
    unfolding weights_def convert_volume_to_weight_g_def by (rule convert_loop_distinct) simp
  have wm: "map_of weights l =
      (case map_of volumes l of
         Some v \<Rightarrow> Some (py_round (v * dict_get DENSITY_TABLE_G_PER_ML l 1) 1)
       | None \<Rightarrow> None)" for l
    unfolding weights_def convert_volume_to_weight_g_def by (simp add: convert_loop_map_of [OF dv] split: option.splits)
  have cm: "map_of calories l =
      (case map_of weights l of
         Some w \<Rightarrow> Some (py_round (w * dict_get CALORIE_TABLE_KCAL_PER_100G l 100 / 100) 1)
       | None \<Rightarrow> None)" for l
    unfolding calories_def compute_calories_kcal_def by (simp add: calories_loop_map_of [OF dw] split: option.splits)
  from macros_loop_map_of [OF dw, of "[]"] obtain macros where
    mc: "compute_macros_grams weights = Inr macros"
    and mm0: "\<forall>l. map_of macros l =
      (case map_of weights l of Some w \<Rightarrow> Some (macros_of_weight l w) | None \<Rightarrow> map_of [] l)"
    unfolding compute_macros_grams_def by blast
  have mm: "map_of macros l =
      (case map_of weights l of Some w \<Rightarrow> Some (macros_of_weight l w) | None \<Rightarrow> None)" for l
    by (simp add: mm0 split: option.splits)
  have vm: "map_of volumes (label' d) = Some (V (label' d))" if "d \<in> set ds" for d
    using estimate_volumes_ml_mem [OF that, of jit]
    unfolding V_def volumes_def by (auto simp: dict_get_Some)
  have "\<forall>d \<in> set ds.
             map_of volumes (label' d) = Some (V (label' d)) \<and>
             map_of weights (label' d) =
               Some (py_round (V (label' d) * dict_get DENSITY_TABLE_G_PER_ML (label' d) 1) 1) \<and>
             map_of calories (label' d) =
               Some (py_round (py_round (V (label' d) * dict_get DENSITY_TABLE_G_PER_ML (label' d) 1) 1
                       * dict_get CALORIE_TABLE_KCAL_PER_100G (label' d) 100 / 100) 1) \<and>
             map_of macros (label' d) =
               Some (macros_of_weight (label' d)
                 (py_round (V (label' d) * dict_get DENSITY_TABLE_G_PER_ML (label' d) 1) 1))"
    by (simp add: vm wm cm mm)
  from fallback_loop_Inr [OF this, of "[]" 0 0 0 0]
  have "fallback_loop volumes weights calories macros ds ([], 0, 0, 0, 0) =
          Inr (fallback_items jit ds,
               sum_list (map estimated_calories_kcal (fallback_items jit ds)),
               sum_list (map estimated_protein_g (fallback_items jit ds)),
               sum_list (map estimated_carbs_g (fallback_items jit ds)),
               sum_list (map estimated_fat_g (fallback_items jit ds)))"
    by (simp add: fallback_items_def V_def volumes_def comp_def)
  then show ?thesis
    unfolding fallback_estimate_def Let_def
    by (simp add: volumes_def [symmetric] weights_def [symmetric] calories_def [symmetric] mc)
qed

lemma run_fallback_pipeline_Inr:
  "\<exists>r. run_fallback_pipeline rnd fname = Inr r \<and>
       items r = fallback_items (volume_jitter rnd) (mock_detect_food_items rnd) \<and>
       pipeline r = fallback_pipeline_info \<and> source r = \<lparr>filename = fname\<rparr>"
  unfolding run_fallback_pipeline_def Let_def by (simp add: fallback_estimate_Inr)

lemma item_of_volume_fields:
  "code (item_of_volume d v) = label' d"
  "name (item_of_volume d v) = dict_get DISPLAY_NAMES (label' d) (label' d)"
  "estimated_volume_ml (item_of_volume d v) = v"
  "estimated_weight_g (item_of_volume d v) =
     py_round (v * dict_get DENSITY_TABLE_G_PER_ML (label' d) 1) 1"
  by (simp_all add: item_of_volume_def Let_def)

lemma item_of_volume_rounded:
  "rounded1 (estimated_calories_kcal (item_of_volume d v))"
  "rounded1 (estimated_protein_g (item_of_volume d v))"
  "rounded1 (estimated_carbs_g (item_of_volume d v))"
  "rounded1 (estimated_fat_g (item_of_volume d v))"
  by (simp_all add: item_of_volume_def Let_def rounded1_py_round del: One_nat_def)

lemma fallback_items_facts:
  "length (fallback_items jit ds) = length ds"
  "map code (fallback_items jit ds) = map label' ds"
  "map name (fallback_items jit ds) = map (\<lambda>d. dict_get DISPLAY_NAMES (label' d) (label' d)) ds"
  by (simp_all add: fallback_items_def item_of_volume_fields comp_def)

lemma fallback_estimate_consistent:
  "fallback_estimate jit ds fname = Inr r \<Longrightarrow> totals_consistent r"
  unfolding fallback_estimate_Inr
  by (auto simp: totals_consistent_def fallback_items_def item_of_volume_rounded)

section \<open>The result of the pipeline\<close>

lemma estimate_nutrition_item:
  assumes "estimate_nutrition jit ds = Inr nr" and "it \<in> set (items nr)"
  shows "\<exists>i < length ds. estimate_item (jit i) (ds ! i) = Inr it"
proof -
  from assms(2) obtain i where "i < length (items nr)" "items nr ! i = it"
    by (auto simp: in_set_conv_nth)
  with estimate_nutrition_Inr(1,2) [OF assms(1)] show ?thesis
    by auto
qed

lemma estimate_item_rounded:
  assumes "estimate_item j d = Inr it"
  shows "rounded1 (estimated_calories_kcal it)" "rounded1 (estimated_protein_g it)"
    "rounded1 (estimated_carbs_g it)" "rounded1 (estimated_fat_g it)"
  using estimate_item_Inr(5-8) [OF assms] by (simp_all only: rounded1_py_round)

lemma estimate_nutrition_consistent:
  assumes "estimate_nutrition jit ds = Inr nr"
  shows "totals_consistent nr"
  unfolding totals_consistent_def
  using estimate_nutrition_Inr(3-6) [OF assms] estimate_nutrition_item [OF assms]
    estimate_item_rounded
  by blast

text \<open>
  The two ways through \<open>run_baseline_pipeline\<close>: the \<^verbatim>\<open>try\<close> block returns the
  estimate for the detected items, or \<open>estimate_nutrition\<close> raises and the mock
  pipeline answers.
\<close>

lemma run_baseline_pipeline_cases:
  obtains (primary) nr where
      "estimate_nutrition (serving_jitter rnd)
         (detect_food_items ext rnd (fst (get_model ext inst)) image_bytes 3) = Inr nr"
      "primary_path ext rnd inst image_bytes fname =
         (Inr \<lparr>items = items nr,
               total_calories_kcal = total_calories_kcal nr,
               total_protein_g = total_protein_g nr,
               total_carbs_g = total_carbs_g nr,
               total_fat_g = total_fat_g nr,
               pipeline = ml_pipeline_info,
               source = \<lparr>filename = fname\<rparr>\<rparr>,
          snd (get_model ext inst))"
      "run_baseline_pipeline ext rnd inst image_bytes fname =
         primary_path ext rnd inst image_bytes fname"
  | (fallback) e where
      "estimate_nutrition (serving_jitter rnd)
         (detect_food_items ext rnd (fst (get_model ext inst)) image_bytes 3) = Inl e"
      "primary_path ext rnd inst image_bytes fname = (Inl e, snd (get_model ext inst))"
      "run_baseline_pipeline ext rnd inst image_bytes fname =
         (run_fallback_pipeline rnd fname, snd (get_model ext inst))"
proof -
  obtain m mi where g: "get_model ext inst = (m, mi)"
    by (cases "get_model ext inst")
  show thesis
  proof (cases "estimate_nutrition (serving_jitter rnd) (detect_food_items ext rnd m image_bytes 3)")
    case (Inl e)
    then show thesis
      using fallback [of e]
      by (simp add: g run_baseline_pipeline_def primary_path_def Let_def)
  next
    case (Inr nr)
    then show thesis
      using primary [of nr]
      by (simp add: g run_baseline_pipeline_def primary_path_def Let_def)
  qed
qed

lemma estimate_loop_error:
  "estimate_loop jit k ds (its, a, b, c, e) = Inl x \<Longrightarrow> x = TypeError"
proof (induction ds arbitrary: k its a b c e)
  case Nil
  then show ?case by simp
next
  case (Cons d ds)
  show ?case
  proof (cases "estimate_item (jit k) d")
    case (Inl y)
    with Cons.prems have "x = y" by simp
    with estimate_item_error [OF Inl] show ?thesis by simp
  next
    case (Inr it)
    with Cons.prems have "estimate_loop jit (Suc k) ds
        (its @ [it], a + estimated_calories_kcal it, b + estimated_protein_g it,
         c + estimated_carbs_g it, e + estimated_fat_g it) = Inl x"
      by simp
    then show ?thesis by (rule Cons.IH)
  qed
qed

lemma estimate_nutrition_error: "estimate_nutrition jit ds = Inl x \<Longrightarrow> x = TypeError"
  unfolding estimate_nutrition_def
  by (cases "estimate_loop jit 0 ds ([], 0, 0, 0, 0)") (auto dest: estimate_loop_error)

text \<open>
  An error raised inside the primary path that does not reach the \<^verbatim>\<open>except\<close> branch
  of the orchestrator: the classifier raises at the call, or the bytes do not decode.
  \<open>detect_food_items\<close> catches the error itself, and the orchestrator returns the
  result of its \<^verbatim>\<open>try\<close> block, which is not the result of \<open>run_fallback_pipeline\<close>.
\<close>

theorem run_baseline_pipeline_inner_error_example:
  "detect_try (ext_with raising_classifier) raising_classifier [255, 216] 3 =
     Inl (Exception ''inference failed'') \<and>
   map_sum id pipeline
      (fst (run_baseline_pipeline (ext_with raising_classifier) example_rnd None [255, 216] None)) =
     Inr ml_pipeline_info \<and>
   map_sum id (map name \<circ> items)
      (fst (run_baseline_pipeline (ext_with raising_classifier) example_rnd None [255, 216] None)) =
     Inr [''Rice'', ''Grilled Chicken'', ''Salad''] \<and>
   map_sum id pipeline (run_fallback_pipeline example_rnd None) = Inr fallback_pipeline_info \<and>
   map_sum id (map name \<circ> items) (run_fallback_pipeline example_rnd None) =
     Inr [''Steamed rice'', ''Broccoli''] \<and>
   fst (run_baseline_pipeline (ext_with raising_classifier) example_rnd None [255, 216] None) \<noteq>
     run_fallback_pipeline example_rnd None \<and>
   detect_try (ext_undecodable empty_classifier) empty_classifier [255, 216] 3 =
     Inl (Exception ''cannot identify image file'') \<and>
   fst (run_baseline_pipeline (ext_undecodable empty_classifier) example_rnd None [255, 216] None) =
     fst (run_baseline_pipeline (ext_with raising_classifier) example_rnd None [255, 216] None)"
  by code_simp

text \<open>
  C1, as the code has it. For every input, \<open>run_baseline_pipeline\<close> returns a result
  record and raises nothing, and the record carries the file name it was given. The
  record is the result of the \<^verbatim>\<open>try\<close> block with the metadata of the model-backed
  path; or the \<^verbatim>\<open>try\<close> block raised, which only \<^verbatim>\<open>round\<close> on a confidence that is
  no number does, and the record is the result of \<open>run_fallback_pipeline\<close>, which raises
  nothing either.
\<close>

theorem run_baseline_pipeline_never_raises:
  "\<exists>r. fst (run_baseline_pipeline ext rnd inst image_bytes fname) = Inr r \<and>
       filename (source r) = fname \<and>
       (case fst (primary_path ext rnd inst image_bytes fname) of
          Inr p \<Rightarrow> r = p \<and> pipeline r = ml_pipeline_info
        | Inl e \<Rightarrow> e = TypeError \<and> run_fallback_pipeline rnd fname = Inr r \<and>
                   pipeline r = fallback_pipeline_info)"
proof (cases rule: run_baseline_pipeline_cases [of rnd ext inst image_bytes fname])
  case (primary nr)
  then show ?thesis by simp
next
  case (fallback e)
  from estimate_nutrition_error [OF fallback(1)] have e: "e = TypeError" .
  from run_fallback_pipeline_Inr [of rnd fname] obtain r where
    "run_fallback_pipeline rnd fname = Inr r" "pipeline r = fallback_pipeline_info"
    "source r = \<lparr>filename = fname\<rparr>"
    by blast
  with fallback e show ?thesis by simp
qed

theorem run_baseline_pipeline_never_raises_witness:
  "fst (primary_path (ext_with unscored_classifier) example_rnd None [255, 216] (Some ''a.jpg'')) =
     Inl TypeError \<and>
   (\<exists>r. fst (run_baseline_pipeline (ext_with unscored_classifier) example_rnd None [255, 216]
               (Some ''a.jpg'')) = Inr r \<and>
        filename (source r) = Some ''a.jpg'' \<and>
        run_fallback_pipeline example_rnd (Some ''a.jpg'') = Inr r \<and>
        pipeline r = fallback_pipeline_info \<and>
        map code (items r) = [''steamed_rice'', ''broccoli''])"
proof -
  have p: "fst (primary_path (ext_with unscored_classifier) example_rnd None [255, 216]
                  (Some ''a.jpg'')) = Inl TypeError"
    by code_simp
  have "map_sum id (\<lambda>r. map code (items r)) (run_fallback_pipeline example_rnd (Some ''a.jpg'')) =
          Inr [''steamed_rice'', ''broccoli'']"
    by code_simp
  then have c: "run_fallback_pipeline example_rnd (Some ''a.jpg'') = Inr r \<Longrightarrow>
      map code (items r) = [''steamed_rice'', ''broccoli'']" for r
    by simp
  from run_baseline_pipeline_never_raises
    [of "ext_with unscored_classifier" example_rnd None "[255, 216]" "Some ''a.jpg''"]
  obtain r where
    "fst (run_baseline_pipeline (ext_with unscored_classifier) example_rnd None [255, 216]
            (Some ''a.jpg'')) = Inr r"
    "filename (source r) = Some ''a.jpg''"
    "run_fallback_pipeline example_rnd (Some ''a.jpg'') = Inr r"
    "pipeline r = fallback_pipeline_info"
    unfolding p by auto
  with p c [of r] show ?thesis by simp
qed

text \<open>
  C2. In the result of \<open>estimate_nutrition\<close>, of the mock pipeline and of
  \<open>run_baseline_pipeline\<close>, for a list of detections of any length, each of the four
  totals is the sum of the item fields rounded to one decimal, and each item field is a
  value rounded to one decimal. \<open>estimate_nutrition\<close> returns whenever every confidence
  is a number; the other two always return.
\<close>

theorem totals_consistent_both_paths:
  "(\<forall>nr. estimate_nutrition jit ds = Inr nr \<longrightarrow> totals_consistent nr) \<and>
   ((\<forall>d \<in> set ds. \<exists>c. confidence d = PyFloat c) \<longrightarrow> (\<exists>nr. estimate_nutrition jit ds = Inr nr)) \<and>
   (\<exists>fr. fallback_estimate jit' fds fname = Inr fr \<and> totals_consistent fr) \<and>
   (\<exists>r. fst (run_baseline_pipeline ext rnd inst image_bytes fname) = Inr r \<and> totals_consistent r)"
proof (intro conjI allI impI)
  fix nr assume "estimate_nutrition jit ds = Inr nr"
  then show "totals_consistent nr" by (rule estimate_nutrition_consistent)
next
  assume "\<forall>d \<in> set ds. \<exists>c. confidence d = PyFloat c"
  then show "\<exists>nr. estimate_nutrition jit ds = Inr nr" by (rule estimate_nutrition_total)
next
  show "\<exists>fr. fallback_estimate jit' fds fname = Inr fr \<and> totals_consistent fr"
    using fallback_estimate_consistent [of jit' fds fname] by (simp add: fallback_estimate_Inr)
next
  show "\<exists>r. fst (run_baseline_pipeline ext rnd inst image_bytes fname) = Inr r \<and> totals_consistent r"
  proof (cases rule: run_baseline_pipeline_cases [of rnd ext inst image_bytes fname])
    case (primary nr)
    from estimate_nutrition_consistent [OF primary(1)] primary(2,3) show ?thesis
      by (simp add: totals_consistent_def)
  next
    case (fallback e)
    obtain fr where "run_fallback_pipeline rnd fname = Inr fr"
      unfolding run_fallback_pipeline_def Let_def by (simp add: fallback_estimate_Inr)
    moreover from this have "totals_consistent fr"
      unfolding run_fallback_pipeline_def Let_def by (rule fallback_estimate_consistent)
    ultimately show ?thesis
      using fallback(3) by simp
  qed
qed

theorem totals_consistent_both_paths_witness:
  "(\<exists>nr. estimate_nutrition (\<lambda>k. 1) [] = Inr nr \<and> totals_consistent nr \<and>
          items nr = [] \<and> total_calories_kcal nr = 0) \<and>
   (\<exists>nr. estimate_nutrition (serving_jitter example_rnd) (fallback_detection example_rnd) = Inr nr \<and>
          totals_consistent nr \<and> length (items nr) = 3 \<and> total_calories_kcal nr = 955 / 2) \<and>
   (\<exists>fr. fallback_estimate (volume_jitter example_rnd) (mock_detect_food_items example_rnd) None =
            Inr fr \<and>
          totals_consistent fr \<and> length (items fr) = 2 \<and> total_calories_kcal fr = 1143 / 5) \<and>
   (\<exists>r. fst (run_baseline_pipeline ext_unavailable example_rnd None [255, 216] None) = Inr r \<and>
         totals_consistent r)"
proof -
  have "map_sum id (\<lambda>nr. (items nr, total_calories_kcal nr)) (estimate_nutrition (\<lambda>k. 1) []) =
          Inr ([], 0)"
    by code_simp
  then obtain n0 where n0: "estimate_nutrition (\<lambda>k. 1) [] = Inr n0" "items n0 = []"
    "total_calories_kcal n0 = 0"
    by (cases "estimate_nutrition (\<lambda>k. 1) []") auto
  have "map_sum id (\<lambda>nr. (length (items nr), total_calories_kcal nr))
          (estimate_nutrition (serving_jitter example_rnd) (fallback_detection example_rnd)) =
          Inr (3, 955 / 2)"
    by code_simp
  then obtain n3 where n3:
    "estimate_nutrition (serving_jitter example_rnd) (fallback_detection example_rnd) = Inr n3"
    "length (items n3) = 3" "total_calories_kcal n3 = 955 / 2"
    by (cases "estimate_nutrition (serving_jitter example_rnd) (fallback_detection example_rnd)") auto
  have "map_sum id (\<lambda>fr. (length (items fr), total_calories_kcal fr))
          (fallback_estimate (volume_jitter example_rnd) (mock_detect_food_items example_rnd) None) =
          Inr (2, 1143 / 5)"
    by code_simp
  then have f2: "fallback_estimate (volume_jitter example_rnd) (mock_detect_food_items example_rnd)
        None = Inr fr \<Longrightarrow> length (items fr) = 2 \<and> total_calories_kcal fr = 1143 / 5" for fr
    by simp
  from totals_consistent_both_paths [of "\<lambda>k. 1" "[]"] n0
    totals_consistent_both_paths [of "serving_jitter example_rnd" "fallback_detection example_rnd"
      "volume_jitter example_rnd" "mock_detect_food_items example_rnd" None ext_unavailable
      example_rnd None "[255, 216]"] n3 f2
  show ?thesis by blast
qed

section \<open>Order, duplicates and signs of the items\<close>

lemma estimate_nutrition_codes:
  assumes "estimate_nutrition jit ds = Inr nr"
  shows "map code (items nr) = map (\<lambda>d. normalize_food_label (label d)) ds"
    and "map name (items nr) = map display_name ds"
proof -
  have len: "length (items nr) = length ds"
    by (rule estimate_nutrition_Inr(1) [OF assms])
  have it: "estimate_item (jit i) (ds ! i) = Inr (items nr ! i)" if "i < length ds" for i
    using estimate_nutrition_Inr(2) [OF assms] that by blast
  show "map code (items nr) = map (\<lambda>d. normalize_food_label (label d)) ds"
    by (rule nth_equalityI) (simp_all add: len estimate_item_Inr(1) [OF it])
  show "map name (items nr) = map display_name ds"
    by (rule nth_equalityI) (simp_all add: len estimate_item_Inr(2) [OF it])
qed

text \<open>
  C8. Both paths build one item for each detection, in the order of the detections:
  the codes of the items are the normalized labels (the labels, in the mock pipeline) of
  the detections, position by position, so that two detections with one code give two
  items; and each total is the rounded sum over all the items.
\<close>

theorem aggregation_keeps_order_and_duplicates:
  "(\<forall>nr. estimate_nutrition jit ds = Inr nr \<longrightarrow>
      length (items nr) = length ds \<and>
      map code (items nr) = map (\<lambda>d. normalize_food_label (label d)) ds \<and>
      map name (items nr) = map display_name ds \<and>
      total_calories_kcal nr = py_round (sum_list (map estimated_calories_kcal (items nr))) 1 \<and>
      total_protein_g nr = py_round (sum_list (map estimated_protein_g (items nr))) 1 \<and>
      total_carbs_g nr = py_round (sum_list (map estimated_carbs_g (items nr))) 1 \<and>
      total_fat_g nr = py_round (sum_list (map estimated_fat_g (items nr))) 1) \<and>
   (\<exists>fr. fallback_estimate jit' fds fname = Inr fr \<and>
      length (items fr) = length fds \<and>
      map code (items fr) = map label' fds \<and>
      total_calories_kcal fr = py_round (sum_list (map estimated_calories_kcal (items fr))) 1 \<and>
      total_protein_g fr = py_round (sum_list (map estimated_protein_g (items fr))) 1 \<and>
      total_carbs_g fr = py_round (sum_list (map estimated_carbs_g (items fr))) 1 \<and>
      total_fat_g fr = py_round (sum_list (map estimated_fat_g (items fr))) 1)"
proof (intro conjI allI impI)
  fix nr assume nr: "estimate_nutrition jit ds = Inr nr"
  show "length (items nr) = length ds"
    by (rule estimate_nutrition_Inr(1) [OF nr])
  show "map code (items nr) = map (\<lambda>d. normalize_food_label (label d)) ds"
    by (rule estimate_nutrition_codes(1) [OF nr])
  show "map name (items nr) = map display_name ds"
    by (rule estimate_nutrition_codes(2) [OF nr])
  show "total_calories_kcal nr = py_round (sum_list (map estimated_calories_kcal (items nr))) 1"
    by (rule estimate_nutrition_Inr(3) [OF nr])
  show "total_protein_g nr = py_round (sum_list (map estimated_protein_g (items nr))) 1"
    by (rule estimate_nutrition_Inr(4) [OF nr])
  show "total_carbs_g nr = py_round (sum_list (map estimated_carbs_g (items nr))) 1"
    by (rule estimate_nutrition_Inr(5) [OF nr])
  show "total_fat_g nr = py_round (sum_list (map estimated_fat_g (items nr))) 1"
    by (rule estimate_nutrition_Inr(6) [OF nr])
next
  show "\<exists>fr. fallback_estimate jit' fds fname = Inr fr \<and>
      length (items fr) = length fds \<and>
      map code (items fr) = map label' fds \<and>
      total_calories_kcal fr = py_round (sum_list (map estimated_calories_kcal (items fr))) 1 \<and>
      total_protein_g fr = py_round (sum_list (map estimated_protein_g (items fr))) 1 \<and>
      total_carbs_g fr = py_round (sum_list (map estimated_carbs_g (items fr))) 1 \<and>
      total_fat_g fr = py_round (sum_list (map estimated_fat_g (items fr))) 1"
    by (simp add: fallback_estimate_Inr fallback_items_facts del: One_nat_def)
qed

theorem aggregation_keeps_order_and_duplicates_witness:
  "(\<exists>nr. estimate_nutrition (\<lambda>k. 1) duplicate_detections = Inr nr \<and>
      length (items nr) = 3 \<and>
      map code (items nr) = [''broccoli'', ''rice'', ''broccoli''] \<and>
      map estimated_calories_kcal (items nr) = [55, 195, 55] \<and>
      total_calories_kcal nr = 305) \<and>
   (\<exists>fr. fallback_estimate (\<lambda>k. 1) duplicate_mock_detections None = Inr fr \<and>
      length (items fr) = 3 \<and>
      map code (items fr) = [''broccoli'', ''steamed_rice'', ''broccoli''] \<and>
      map estimated_calories_kcal (items fr) = [297 / 10, 1989 / 10, 297 / 10] \<and>
      total_calories_kcal fr = 2583 / 10)"
proof -
  have "map_sum id (\<lambda>nr. (map estimated_calories_kcal (items nr), total_calories_kcal nr))
          (estimate_nutrition (\<lambda>k. 1) duplicate_detections) = Inr ([55, 195, 55], 305)"
    by code_simp
  then obtain nr where nr: "estimate_nutrition (\<lambda>k. 1) duplicate_detections = Inr nr"
    "map estimated_calories_kcal (items nr) = [55, 195, 55]" "total_calories_kcal nr = 305"
    by (cases "estimate_nutrition (\<lambda>k. 1) duplicate_detections") auto
  have "map_sum id (\<lambda>fr. (map estimated_calories_kcal (items fr), total_calories_kcal fr))
          (fallback_estimate (\<lambda>k. 1) duplicate_mock_detections None) =
          Inr ([297 / 10, 1989 / 10, 297 / 10], 2583 / 10)"
    by code_simp
  then have fr: "fallback_estimate (\<lambda>k. 1) duplicate_mock_detections None = Inr fr \<Longrightarrow>
      map estimated_calories_kcal (items fr) = [297 / 10, 1989 / 10, 297 / 10] \<and>
      total_calories_kcal fr = 2583 / 10" for fr
    by simp
  have c: "map (\<lambda>d. normalize_food_label (label d)) duplicate_detections =
             [''broccoli'', ''rice'', ''broccoli'']"
    by code_simp
  have l: "length duplicate_detections = 3" "length duplicate_mock_detections = 3"
    "map label' duplicate_mock_detections = [''broccoli'', ''steamed_rice'', ''broccoli'']"
    by (simp_all add: duplicate_detections_def duplicate_mock_detections_def)
  note T = aggregation_keeps_order_and_duplicates
    [of "\<lambda>k. 1" duplicate_detections "\<lambda>k. 1" duplicate_mock_detections None]
  from T nr(1) have a: "length (items nr) = length duplicate_detections"
    "map code (items nr) = map (\<lambda>d. normalize_food_label (label d)) duplicate_detections"
    by blast+
  from T obtain fr0 where f0:
    "fallback_estimate (\<lambda>k. 1) duplicate_mock_detections None = Inr fr0"
    "length (items fr0) = length duplicate_mock_detections"
    "map code (items fr0) = map label' duplicate_mock_detections"
    by blast
  have P1: "\<exists>nr. estimate_nutrition (\<lambda>k. 1) duplicate_detections = Inr nr \<and>
      length (items nr) = 3 \<and>
      map code (items nr) = [''broccoli'', ''rice'', ''broccoli''] \<and>
      map estimated_calories_kcal (items nr) = [55, 195, 55] \<and>
      total_calories_kcal nr = 305"
    using nr a c l by (intro exI [of _ nr]) simp
  have P2: "\<exists>fr. fallback_estimate (\<lambda>k. 1) duplicate_mock_detections None = Inr fr \<and>
      length (items fr) = 3 \<and>
      map code (items fr) = [''broccoli'', ''steamed_rice'', ''broccoli''] \<and>
      map estimated_calories_kcal (items fr) = [297 / 10, 1989 / 10, 297 / 10] \<and>
      total_calories_kcal fr = 2583 / 10"
    using f0 fr [OF f0(1)] l by (intro exI [of _ fr0]) simp
  from P1 P2 show ?thesis by (rule conjI)
qed

subsection \<open>Signs of the item fields\<close>

lemma reference_of_bounds:
  "60 \<le> typical_serving_g (reference_of c)"
  "0 < density_g_per_ml (reference_of c)"
  "0 \<le> calories_per_100g (reference_of c)"
  "0 \<le> protein_per_100g (reference_of c)"
  "0 \<le> carbs_per_100g (reference_of c)"
  "0 \<le> fat_per_100g (reference_of c)"
  by (simp_all add: reference_of_def dict_get_def NUTRITION_DATABASE_def food_def)

lemma estimate_item_nonneg:
  assumes it: "estimate_item j d = Inr it" and j: "8 / 10 \<le> j"
  shows "item_nonneg it"
proof -
  define r where "r = reference_of (code it)"
  define w where "w = estimated_weight_g it"
  have "60 * (8 / 10) \<le> typical_serving_g r * j"
    using reference_of_bounds(1) [of "code it"] j unfolding r_def by (intro mult_mono) simp_all
  then have "1 / 10 \<le> typical_serving_g r * j" by simp
  then have "0 < py_round (typical_serving_g r * j) 1" by (rule py_round_pos)
  with estimate_item_Inr(3) [OF it] have w: "0 < w"
    by (simp add: r_def w_def)
  have d: "0 < density_g_per_ml r" and n: "0 \<le> calories_per_100g r" "0 \<le> protein_per_100g r"
    "0 \<le> carbs_per_100g r" "0 \<le> fat_per_100g r"
    unfolding r_def by (rule reference_of_bounds)+
  have "0 \<le> py_round (w / density_g_per_ml r) 1"
    using w d by (intro py_round_nonneg) simp
  moreover have "0 \<le> py_round (calories_per_100g r * (w / 100)) 1"
    using w n by (intro py_round_nonneg) simp
  moreover have "0 \<le> py_round (protein_per_100g r * (w / 100)) 1"
    using w n by (intro py_round_nonneg) simp
  moreover have "0 \<le> py_round (carbs_per_100g r * (w / 100)) 1"
    using w n by (intro py_round_nonneg) simp
  moreover have "0 \<le> py_round (fat_per_100g r * (w / 100)) 1"
    using w n by (intro py_round_nonneg) simp
  ultimately show ?thesis
    unfolding item_nonneg_def
    using w estimate_item_Inr(4-8) [OF it]
    by (simp add: r_def w_def)
qed

lemma table_bounds:
  "90 \<le> dict_get base_volumes l 100"
  "3 / 10 \<le> dict_get DENSITY_TABLE_G_PER_ML l 1"
  "0 \<le> dict_get CALORIE_TABLE_KCAL_PER_100G l 100"
  by (simp_all add: dict_get_def base_volumes_def DENSITY_TABLE_G_PER_ML_def
      CALORIE_TABLE_KCAL_PER_100G_def)

lemma item_of_volume_nonneg:
  assumes v: "80 \<le> v"
  shows "item_nonneg (item_of_volume d v)"
proof -
  define w where "w = py_round (v * dict_get DENSITY_TABLE_G_PER_ML (label' d) 1) 1"
  have "80 * (3 / 10) \<le> v * dict_get DENSITY_TABLE_G_PER_ML (label' d) 1"
    using v table_bounds(2) [of "label' d"] by (intro mult_mono) simp_all
  then have "1 / 10 \<le> v * dict_get DENSITY_TABLE_G_PER_ML (label' d) 1" by simp
  then have w: "0 < w" unfolding w_def by (rule py_round_pos)
  have "0 \<le> py_round (w * dict_get CALORIE_TABLE_KCAL_PER_100G (label' d) 100 / 100) 1"
    using w table_bounds(3) [of "label' d"] by (intro py_round_nonneg) simp
  moreover have "0 \<le> py_round (dict_get (dict_get MACROS_TABLE_PER_100G (label' d)
      [(''protein'', 5), (''carbs'', 10), (''fat'', 2)]) ''protein'' 0 * (w / 100)) 1"
    using w macros_entry_nonneg(1) [of "label' d"] by (intro py_round_nonneg) simp
  moreover have "0 \<le> py_round (dict_get (dict_get MACROS_TABLE_PER_100G (label' d)
      [(''protein'', 5), (''carbs'', 10), (''fat'', 2)]) ''carbs'' 0 * (w / 100)) 1"
    using w macros_entry_nonneg(2) [of "label' d"] by (intro py_round_nonneg) simp
  moreover have "0 \<le> py_round (dict_get (dict_get MACROS_TABLE_PER_100G (label' d)
      [(''protein'', 5), (''carbs'', 10), (''fat'', 2)]) ''fat'' 0 * (w / 100)) 1"
    using w macros_entry_nonneg(3) [of "label' d"] by (intro py_round_nonneg) simp
  ultimately show ?thesis
    unfolding item_nonneg_def item_of_volume_def Let_def w_def [symmetric]
    using w v by simp
qed

lemma fallback_items_nonneg:
  assumes jit: "jitter_in (9 / 10) (11 / 10) jit" and it: "it \<in> set (fallback_items jit ds)"
  shows "item_nonneg it"
proof -
  from it obtain d where d: "d \<in> set ds"
    and eq: "it = item_of_volume d (dict_get (estimate_volumes_ml jit ds) (label' d) 0)"
    unfolding fallback_items_def by auto
  from estimate_volumes_ml_mem [OF d, of jit] obtain i where
    "map_of (estimate_volumes_ml jit ds) (label' d) =
       Some (py_round (dict_get base_volumes (label' d) 100 * jit i) 1)"
    by blast
  then have v: "dict_get (estimate_volumes_ml jit ds) (label' d) 0 =
      py_round (dict_get base_volumes (label' d) 100 * jit i) 1"
    by (rule dict_get_Some)
  from jit have "9 / 10 \<le> jit i" by (simp add: jitter_in_def)
  then have "90 * (9 / 10) \<le> dict_get base_volumes (label' d) 100 * jit i"
    using table_bounds(1) [of "label' d"] by (intro mult_mono) simp_all
  with py_round_near [of "dict_get base_volumes (label' d) 100 * jit i"]
  have "80 \<le> py_round (dict_get base_volumes (label' d) 100 * jit i) 1"
    by simp
  then show ?thesis
    unfolding eq v by (rule item_of_volume_nonneg)
qed

text \<open>
  C9. Let every draw of \<^verbatim>\<open>random.uniform(0.8, 1.2)\<close> and of
  \<^verbatim>\<open>random.uniform(0.9, 1.1)\<close> lie in its range. Then in every item of the result of
  \<open>estimate_nutrition\<close>, of the mock pipeline and of \<open>run_baseline_pipeline\<close>, for all
  detections, the weight is positive and the volume, the calories, the protein, the
  carbs and the fat are not negative.
\<close>

theorem items_nonneg:
  assumes "jitter_in (8 / 10) (12 / 10) (serving_jitter rnd)"
    and "jitter_in (9 / 10) (11 / 10) (volume_jitter rnd)"
  shows "(\<forall>nr. estimate_nutrition (serving_jitter rnd) ds = Inr nr \<longrightarrow>
            (\<forall>it \<in> set (items nr). item_nonneg it)) \<and>
         (\<exists>fr. fallback_estimate (volume_jitter rnd) fds fname = Inr fr \<and>
            (\<forall>it \<in> set (items fr). item_nonneg it)) \<and>
         (\<exists>r. fst (run_baseline_pipeline ext rnd inst image_bytes fname) = Inr r \<and>
            (\<forall>it \<in> set (items r). item_nonneg it))"
proof -
  have ml: "item_nonneg it"
    if "estimate_nutrition (serving_jitter rnd) xs = Inr nr" "it \<in> set (items nr)" for xs nr it
  proof -
    from estimate_nutrition_item [OF that] obtain i where
      "estimate_item (serving_jitter rnd i) (xs ! i) = Inr it"
      by blast
    moreover from assms(1) have "8 / 10 \<le> serving_jitter rnd i"
      by (simp add: jitter_in_def)
    ultimately show ?thesis by (rule estimate_item_nonneg)
  qed
  have fb: "\<exists>fr. fallback_estimate (volume_jitter rnd) xs f = Inr fr \<and>
            (\<forall>it \<in> set (items fr). item_nonneg it)" for xs f
    using fallback_items_nonneg [OF assms(2)] by (simp add: fallback_estimate_Inr)
  have "\<exists>r. fst (run_baseline_pipeline ext rnd inst image_bytes fname) = Inr r \<and>
            (\<forall>it \<in> set (items r). item_nonneg it)"
  proof (cases rule: run_baseline_pipeline_cases [of rnd ext inst image_bytes fname])
    case (primary nr)
    with ml [OF primary(1)] show ?thesis by simp
  next
    case (fallback e)
    with fb [of "mock_detect_food_items rnd" fname] show ?thesis
      by (simp add: run_fallback_pipeline_def Let_def)
  qed
  with ml fb show ?thesis by blast
qed

theorem items_nonneg_witness:
  "jitter_in (8 / 10) (12 / 10) (serving_jitter boundary_rnd) \<and>
   jitter_in (9 / 10) (11 / 10) (volume_jitter boundary_rnd) \<and>
   (\<exists>nr. estimate_nutrition (serving_jitter boundary_rnd) (fallback_detection boundary_rnd) = Inr nr \<and>
      map estimated_weight_g (items nr) = [120, 120, 80] \<and>
      (\<forall>it \<in> set (items nr). item_nonneg it)) \<and>
   (\<exists>fr. fallback_estimate (volume_jitter boundary_rnd) (mock_detect_food_items boundary_rnd) None =
           Inr fr \<and>
      map estimated_weight_g (items fr) = [567 / 5, 1683 / 10, 243 / 5] \<and>
      (\<forall>it \<in> set (items fr). item_nonneg it)) \<and>
   (\<exists>r. fst (run_baseline_pipeline ext_unavailable boundary_rnd None [255, 216] None) = Inr r \<and>
      (\<forall>it \<in> set (items r). item_nonneg it))"
proof -
  have j: "jitter_in (8 / 10) (12 / 10) (serving_jitter boundary_rnd)"
    "jitter_in (9 / 10) (11 / 10) (volume_jitter boundary_rnd)"
    by (simp_all add: jitter_in_def boundary_rnd_def)
  note T = items_nonneg [OF j, where ds = "fallback_detection boundary_rnd"
      and fds = "mock_detect_food_items boundary_rnd" and fname = None
      and ext = ext_unavailable and inst = None and image_bytes = "[255, 216]"]
  have "map_sum id (\<lambda>nr. map estimated_weight_g (items nr))
          (estimate_nutrition (serving_jitter boundary_rnd) (fallback_detection boundary_rnd)) =
          Inr [120, 120, 80]"
    by code_simp
  then obtain nr where nr:
    "estimate_nutrition (serving_jitter boundary_rnd) (fallback_detection boundary_rnd) = Inr nr"
    "map estimated_weight_g (items nr) = [120, 120, 80]"
    by (cases "estimate_nutrition (serving_jitter boundary_rnd) (fallback_detection boundary_rnd)")
      auto
  from T nr(1) have "\<forall>it \<in> set (items nr). item_nonneg it" by blast
  with nr have P1: "\<exists>nr. estimate_nutrition (serving_jitter boundary_rnd)
        (fallback_detection boundary_rnd) = Inr nr \<and>
      map estimated_weight_g (items nr) = [120, 120, 80] \<and>
      (\<forall>it \<in> set (items nr). item_nonneg it)"
    by (intro exI [of _ nr]) simp
  have "map_sum id (\<lambda>fr. map estimated_weight_g (items fr))
          (fallback_estimate (volume_jitter boundary_rnd) (mock_detect_food_items boundary_rnd) None) =
          Inr [567 / 5, 1683 / 10, 243 / 5]"
    by code_simp
  then have w: "fallback_estimate (volume_jitter boundary_rnd) (mock_detect_food_items boundary_rnd)
        None = Inr fr \<Longrightarrow> map estimated_weight_g (items fr) = [567 / 5, 1683 / 10, 243 / 5]" for fr
    by simp
  from T obtain fr where fr:
    "fallback_estimate (volume_jitter boundary_rnd) (mock_detect_food_items boundary_rnd) None = Inr fr"
    "\<forall>it \<in> set (items fr). item_nonneg it"
    by blast
  with w [OF fr(1)] have P2: "\<exists>fr. fallback_estimate (volume_jitter boundary_rnd)
        (mock_detect_food_items boundary_rnd) None = Inr fr \<and>
      map estimated_weight_g (items fr) = [567 / 5, 1683 / 10, 243 / 5] \<and>
      (\<forall>it \<in> set (items fr). item_nonneg it)"
    by (intro exI [of _ fr]) simp
  from T have P3: "\<exists>r. fst (run_baseline_pipeline ext_unavailable boundary_rnd None [255, 216] None) =
        Inr r \<and> (\<forall>it \<in> set (items r). item_nonneg it)"
    by blast
  from j P1 P2 P3 show ?thesis by (intro conjI)
qed

section \<open>Serving sizes\<close>





end
